theory Spec2Isabelle
  imports Complex_Main "HOL-Library.Product_Lexorder" "HOL-Library.Option_ord"
begin

unbundle bit_operations_syntax

section \<open>Spatial restriction functions for temporal points (tpoint_restrfuncs.c)\<close>

text \<open>
  A shallow embedding of \<^verbatim>\<open>meos/src/point/tpoint_restrfuncs.c\<close>. A C double is the
  real number it denotes, and every arithmetic operation on doubles rounds its exact
  result to the nearest double (binary64, ties to even), one rounding for each operation
  (no fused multiply-add and no extended precision); comparisons are exact. A
  timestamp (\<^verbatim>\<open>TimestampTz\<close>, an int64 of microseconds) is an integer. Two constants of
  the headers are not among the sources and are taken as parameters wherever a function
  uses them: \<open>eps\<close> stands for \<^verbatim>\<open>MEOS_EPSILON\<close> and \<open>tol\<close> for the tolerance
  \<^verbatim>\<open>FP_TOLERANCE\<close> of the liblwgeom comparison macros.
\<close>

subsection \<open>Arithmetic of doubles\<close>

text \<open>The integer nearest to a real number, the even one of the two when it is halfway.\<close>

definition round_half_even :: "real \<Rightarrow> int" where
  "round_half_even r =
     (let f = \<lfloor>r\<rfloor>
      in if r - of_int f < 1 / 2 then f
         else if r - of_int f > 1 / 2 then f + 1
         else if even f then f else f + 1)"

text \<open>
  The binary exponent of a double lies between -1022 and 1023. For \<open>1 \<le> x\<close> the
  exponent is the number of halvings that bring \<open>x\<close> below 2; for \<open>x < 1\<close> it is minus
  the number of doublings that bring \<open>x\<close> to 1 or above, and -1022 for the numbers
  below \<open>2 powi (- 1022)\<close> (the subnormal numbers and zero).
\<close>

primrec binary_exponent_up :: "nat \<Rightarrow> real \<Rightarrow> int" where
  "binary_exponent_up 0 x = 0"
| "binary_exponent_up (Suc n) x = (if x < 2 then 0 else binary_exponent_up n (x / 2) + 1)"

primrec binary_exponent_down :: "nat \<Rightarrow> real \<Rightarrow> int" where
  "binary_exponent_down 0 x = 0"
| "binary_exponent_down (Suc n) x = (if 1 \<le> x then 0 else binary_exponent_down n (2 * x) - 1)"

definition binary64_exponent :: "real \<Rightarrow> int" where
  "binary64_exponent x =
     (if 1 \<le> \<bar>x\<bar> then binary_exponent_up 1024 \<bar>x\<bar> else binary_exponent_down 1022 \<bar>x\<bar>)"

text \<open>
  Rounding to binary64: the nearest multiple of the spacing of the doubles at \<open>x\<close>, which
  is \<open>2 powi (e - 52)\<close> for the exponent \<open>e\<close> (53 significant bits). A result beyond the
  largest finite double (an infinity in C) and a division by zero (an infinity or a
  NaN in C) are not modelled.
\<close>

definition binary64 :: "real \<Rightarrow> real" where
  "binary64 x =
     (let q = 2 powi (binary64_exponent x - 52)
      in of_int (round_half_even (x / q)) * q)"

text \<open>
  The real numbers that the rounding leaves unchanged: within the range of the finite
  doubles, these are the doubles.
\<close>

definition is_double :: "real \<Rightarrow> bool" where
  "is_double x = (binary64 x = x)"

text \<open>The operators \<^verbatim>\<open>+\<close>, \<^verbatim>\<open>-\<close>, \<^verbatim>\<open>*\<close> and \<^verbatim>\<open>/\<close> of C on doubles.\<close>

definition double_add :: "real \<Rightarrow> real \<Rightarrow> real" where
  "double_add x y = binary64 (x + y)"

definition double_sub :: "real \<Rightarrow> real \<Rightarrow> real" where
  "double_sub x y = binary64 (x - y)"

definition double_mul :: "real \<Rightarrow> real \<Rightarrow> real" where
  "double_mul x y = binary64 (x * y)"

definition double_div :: "real \<Rightarrow> real \<Rightarrow> real" where
  "double_div x y = binary64 (x / y)"

subsection \<open>Intersection of two segments\<close>

record POINT2D =
  px :: real
  py :: real

text \<open>The possible ways a pair of segments can interact, in the order of the C enum.\<close>

datatype MEOS_SEG_INTER_TYPE =
  MEOS_SEG_NO_INTERSECTION
  | MEOS_SEG_OVERLAP
  | MEOS_SEG_CROSS
  | MEOS_SEG_TOUCH_END
  | MEOS_SEG_TOUCH

text \<open>The integer an enum constant stands for (the splitter tests \<^verbatim>\<open>intertype > 0\<close>).\<close>

fun seg_inter_int :: "MEOS_SEG_INTER_TYPE \<Rightarrow> int" where
  "seg_inter_int MEOS_SEG_NO_INTERSECTION = 0"
| "seg_inter_int MEOS_SEG_OVERLAP = 1"
| "seg_inter_int MEOS_SEG_CROSS = 2"
| "seg_inter_int MEOS_SEG_TOUCH_END = 3"
| "seg_inter_int MEOS_SEG_TOUCH = 4"

text \<open>
  \<^verbatim>\<open>parseg2d_intersection\<close>: the unique point shared by two closed collinear segments.
  The second component is the point written to the out parameter \<^verbatim>\<open>p\<close>, \<open>None\<close>
  when the function leaves it untouched.
\<close>

definition parseg2d_intersection ::
  "POINT2D \<Rightarrow> POINT2D \<Rightarrow> POINT2D \<Rightarrow> POINT2D \<Rightarrow> MEOS_SEG_INTER_TYPE \<times> POINT2D option" where
  "parseg2d_intersection a b c d =
     (let xmin = max (min (px a) (px b)) (min (px c) (px d));
          xmax = min (max (px a) (px b)) (max (px c) (px d));
          ymin = max (min (py a) (py b)) (min (py c) (py d));
          ymax = min (max (py a) (py b)) (max (py c) (py d))
      in if xmin < xmax \<or> ymin < ymax then (MEOS_SEG_OVERLAP, None)
         else if (px b = px c \<and> py b = py c) \<or> (px b = px d \<and> py b = py d)
           then (MEOS_SEG_TOUCH_END, Some \<lparr>px = px b, py = py b\<rparr>)
         else if (px a = px c \<and> py a = py c) \<or> (px a = px d \<and> py a = py d)
           then (MEOS_SEG_TOUCH_END, Some \<lparr>px = px a, py = py a\<rparr>)
         else (MEOS_SEG_NO_INTERSECTION, None))"

text \<open>\<^verbatim>\<open>SIGNUM(n)\<close> is \<^verbatim>\<open>((n) > 0) - ((n) < 0)\<close>.\<close>

definition SIGNUM :: "real \<Rightarrow> int" where
  "SIGNUM n = (if n > 0 then 1 else 0) - (if n < 0 then 1 else 0)"

text \<open>\<^verbatim>\<open>seg2d_side\<close>: the side of the segment \<open>p1 p2\<close> where \<open>q\<close> lies, 0 within \<open>eps\<close>.\<close>

definition seg2d_side :: "real \<Rightarrow> POINT2D \<Rightarrow> POINT2D \<Rightarrow> POINT2D \<Rightarrow> int" where
  "seg2d_side eps p1 p2 q =
     (let side = double_sub
                   (double_mul (double_sub (px q) (px p1)) (double_sub (py p2) (py p1)))
                   (double_mul (double_sub (px p2) (px p1)) (double_sub (py q) (py p1)))
      in if \<bar>side\<bar> < eps then 0 else SIGNUM side)"

text \<open>
  The liblwgeom macros \<^verbatim>\<open>FP_MIN\<close>, \<^verbatim>\<open>FP_MAX\<close>, \<^verbatim>\<open>FP_GT\<close> and \<^verbatim>\<open>FP_LT\<close>:
  the last two compare up to the tolerance.
\<close>

definition FP_MIN :: "real \<Rightarrow> real \<Rightarrow> real" where
  "FP_MIN A B = (if A < B then A else B)"

definition FP_MAX :: "real \<Rightarrow> real \<Rightarrow> real" where
  "FP_MAX A B = (if A > B then A else B)"

definition FP_GT :: "real \<Rightarrow> real \<Rightarrow> real \<Rightarrow> bool" where
  "FP_GT tol A B = (double_sub A tol > B)"

definition FP_LT :: "real \<Rightarrow> real \<Rightarrow> real \<Rightarrow> bool" where
  "FP_LT tol A B = (double_add A tol < B)"

text \<open>\<^verbatim>\<open>lw_seg_interact\<close>: do the envelopes of the two segments interact?\<close>

definition lw_seg_interact :: "real \<Rightarrow> POINT2D \<Rightarrow> POINT2D \<Rightarrow> POINT2D \<Rightarrow> POINT2D \<Rightarrow> bool" where
  "lw_seg_interact tol p1 p2 q1 q2 =
     (let minq = FP_MIN (px q1) (px q2);
          maxq = FP_MAX (px q1) (px q2);
          minp = FP_MIN (px p1) (px p2);
          maxp = FP_MAX (px p1) (px p2)
      in if FP_GT tol minp maxq \<or> FP_LT tol maxp minq then False
         else
           (let minq = FP_MIN (py q1) (py q2);
                maxq = FP_MAX (py q1) (py q2);
                minp = FP_MIN (py p1) (py p2);
                maxp = FP_MAX (py p1) (py p2)
            in if FP_GT tol minp maxq \<or> FP_LT tol maxp minq then False
               else True))"

text \<open>
  \<^verbatim>\<open>seg2d_intersection\<close>: the way the closed segments \<open>a b\<close> and \<open>c d\<close> interact, and
  the point written to \<^verbatim>\<open>p\<close> (only for \<open>MEOS_SEG_TOUCH_END\<close>).
\<close>

definition seg2d_intersection ::
  "real \<Rightarrow> real \<Rightarrow> POINT2D \<Rightarrow> POINT2D \<Rightarrow> POINT2D \<Rightarrow> POINT2D
     \<Rightarrow> MEOS_SEG_INTER_TYPE \<times> POINT2D option" where
  "seg2d_intersection eps tol a b c d =
     (if \<not> lw_seg_interact tol a b c d then (MEOS_SEG_NO_INTERSECTION, None)
      else
        (let pq1 = seg2d_side eps a b c;
             pq2 = seg2d_side eps a b d
         in if (pq1 > 0 \<and> pq2 > 0) \<or> (pq1 < 0 \<and> pq2 < 0)
            then (MEOS_SEG_NO_INTERSECTION, None)
            else
              (let qp1 = seg2d_side eps c d a;
                   qp2 = seg2d_side eps c d b
               in if (qp1 > 0 \<and> qp2 > 0) \<or> (qp1 < 0 \<and> qp2 < 0)
                  then (MEOS_SEG_NO_INTERSECTION, None)
                  else if pq1 = 0 \<and> pq2 = 0 \<and> qp1 = 0 \<and> qp2 = 0
                    then parseg2d_intersection a b c d
                  else if pq1 = 0 \<or> pq2 = 0 \<or> qp1 = 0 \<or> qp2 = 0 then
                    (if (px b = px c \<and> py b = py c) \<or> (px b = px d \<and> py b = py d)
                       then (MEOS_SEG_TOUCH_END, Some \<lparr>px = px b, py = py b\<rparr>)
                     else if (px a = px c \<and> py a = py c) \<or> (px a = px d \<and> py a = py d)
                       then (MEOS_SEG_TOUCH_END, Some \<lparr>px = px a, py = py a\<rparr>)
                     else (MEOS_SEG_TOUCH, None))
                  else (MEOS_SEG_CROSS, None))))"




subsection \<open>Points, spans, boxes and temporal values\<close>

text \<open>
  A point value (a serialized PostGIS point): two coordinates, a third one when the
  point has the Z flag, the spatial reference identifier and the geodetic flag.
\<close>

record GSPOINT =
  gx :: real
  gy :: real
  gz :: "real option"
  gsrid :: int
  ggeodetic :: bool

text \<open>\<^verbatim>\<open>gspoint_make(x, y, z, hasz, geodetic, srid)\<close>.\<close>

definition gspoint_make :: "real \<Rightarrow> real \<Rightarrow> real \<Rightarrow> bool \<Rightarrow> bool \<Rightarrow> int \<Rightarrow> GSPOINT" where
  "gspoint_make x y z hasz geodetic srid =
     \<lparr>gx = x, gy = y, gz = (if hasz then Some z else None), gsrid = srid, ggeodetic = geodetic\<rparr>"

text \<open>The Z coordinate read through \<^verbatim>\<open>POINT3DZ\<close>; the callers read it of points with Z only.\<close>

definition point3dz_z :: "GSPOINT \<Rightarrow> real" where
  "point3dz_z p = (case gz p of Some z \<Rightarrow> z | None \<Rightarrow> 0)"

definition datum_point2d :: "GSPOINT \<Rightarrow> POINT2D" where
  "datum_point2d p = \<lparr>px = gx p, py = gy p\<rparr>"

text \<open>
  Modelled from the spec: \<^verbatim>\<open>datum_point_eq\<close> is not among the sources; two positions
  are compared for exact equality (not epsilon).
\<close>

definition datum_point_eq :: "GSPOINT \<Rightarrow> GSPOINT \<Rightarrow> bool" where
  "datum_point_eq p q = (p = q)"

text \<open>A span: an interval with an inclusive or exclusive bound at each end.\<close>

record 'a Span =
  lower :: 'a
  upper :: 'a
  lower_inc :: bool
  upper_inc :: bool

text \<open>
  Modelled from the spec: \<^verbatim>\<open>contains_span_value\<close> is not among the sources; a span is
  a one-dimensional interval with inclusive/exclusive bounds at each end.
\<close>

definition contains_span_value :: "('a::linorder) Span \<Rightarrow> 'a \<Rightarrow> bool" where
  "contains_span_value s v =
     ((lower s < v \<or> (lower s = v \<and> lower_inc s)) \<and> (v < upper s \<or> (v = upper s \<and> upper_inc s)))"

text \<open>
  A spatiotemporal box: the flags saying which dimensions it has, its SRID, the
  spatial bounds and the period.
\<close>

record STBox =
  flag_x :: bool
  flag_z :: bool
  flag_t :: bool
  flag_geodetic :: bool
  box_srid :: int
  xmin :: real
  xmax :: real
  ymin :: real
  ymax :: real
  zmin :: real
  zmax :: real
  period :: "int Span"

record TInstant =
  tinstant_value :: GSPOINT
  tinstant_t :: int

definition inst_has_z :: "TInstant \<Rightarrow> bool" where
  "inst_has_z inst = (gz (tinstant_value inst) \<noteq> None)"

subsection \<open>Cohen-Sutherland line clipping extended to 3D\<close>

text \<open>Region codes.\<close>

definition INSIDE :: int where "INSIDE = 0"
definition LEFT :: int where "LEFT = 1"
definition RIGHT :: int where "RIGHT = 2"
definition BOTTOM :: int where "BOTTOM = 4"
definition TOP :: int where "TOP = 8"
definition FRONT :: int where "FRONT = 16"
definition BACK :: int where "BACK = 32"

text \<open>Border codes.\<close>

definition XMAX :: int where "XMAX = 1"
definition YMAX :: int where "YMAX = 2"
definition ZMAX :: int where "ZMAX = 4"

text \<open>\<^verbatim>\<open>computeCode\<close>: the region code of the point \<open>(x, y, z)\<close>.\<close>

definition computeCode :: "real \<Rightarrow> real \<Rightarrow> real \<Rightarrow> bool \<Rightarrow> STBox \<Rightarrow> int" where
  "computeCode x y z hasz box =
     (let code = INSIDE;
          code = (if x < xmin box then code OR LEFT
                  else if x > xmax box then code OR RIGHT else code);
          code = (if y < ymin box then code OR BOTTOM
                  else if y > ymax box then code OR TOP else code);
          code = (if hasz then
                    (if z < zmin box then code OR FRONT
                     else if z > zmax box then code OR BACK else code)
                  else code)
      in code)"

text \<open>\<^verbatim>\<open>computeMaxBorderCode\<close>: the max border code of the point \<open>(x, y, z)\<close>.\<close>

definition computeMaxBorderCode :: "real \<Rightarrow> real \<Rightarrow> real \<Rightarrow> real \<Rightarrow> bool \<Rightarrow> STBox \<Rightarrow> int" where
  "computeMaxBorderCode eps x y z hasz box =
     (let code = INSIDE;
          code = (if double_sub (xmax box) x < eps then code OR XMAX else code);
          code = (if double_sub (ymax box) y < eps then code OR YMAX else code);
          code = (if hasz \<and> double_sub (zmax box) z < eps then code OR ZMAX else code)
      in code)"

text \<open>
  The ways a call can fail: the errors the code reports (an invalid argument, an internal
  error), a failed \<^verbatim>\<open>assert\<close>, and the undefined behaviours the embedding makes
  explicit (a read through \<^verbatim>\<open>NULL\<close>, a read of a variable that was never written).
\<close>

datatype error =
  InvalidArgument
  | InternalError
  | AssertionFailed
  | NullPointer
  | UninitialisedRead
  | InvalidCast
  | NoReturn

text \<open>
  The expression \<^verbatim>\<open>a1 + (a2 - a1) * (face - c1) / (c2 - c1)\<close> of the clipping loop: the
  coordinate \<open>a\<close> of the point of the segment whose coordinate \<open>c\<close> is on the face. C
  evaluates the product first, then the quotient, then the sum.
\<close>

text \<open>
  The intersection point \<open>(x, y, z)\<close> that the body of the clipping loop computes for
  the endpoint picked with code \<open>code_out\<close>: the first violated face in the order left,
  right, bottom, top, front, back. The C code leaves \<open>x\<close> and \<open>y\<close> uninitialised when
  no branch is taken; the model has no result there (\<open>None\<close>).
\<close>

definition clip_coordinate :: "real \<Rightarrow> real \<Rightarrow> real \<Rightarrow> real \<Rightarrow> real \<Rightarrow> real" where
  "clip_coordinate a1 a2 face c1 c2 =
     double_add a1 (double_div (double_mul (double_sub a2 a1) (double_sub face c1))
                      (double_sub c2 c1))"

definition clip_intersection ::
  "STBox \<Rightarrow> bool \<Rightarrow> int \<Rightarrow> real \<Rightarrow> real \<Rightarrow> real \<Rightarrow> real \<Rightarrow> real \<Rightarrow> real
     \<Rightarrow> (real \<times> real \<times> real) option" where
  "clip_intersection box hasz code_out x1 y1 z1 x2 y2 z2 =
     (if code_out AND LEFT \<noteq> 0 then
        Some (xmin box,
              clip_coordinate y1 y2 (xmin box) x1 x2,
              if hasz then clip_coordinate z1 z2 (xmin box) x1 x2 else 0)
      else if code_out AND RIGHT \<noteq> 0 then
        Some (xmax box,
              clip_coordinate y1 y2 (xmax box) x1 x2,
              if hasz then clip_coordinate z1 z2 (xmax box) x1 x2 else 0)
      else if code_out AND BOTTOM \<noteq> 0 then
        Some (clip_coordinate x1 x2 (ymin box) y1 y2,
              ymin box,
              if hasz then clip_coordinate z1 z2 (ymin box) y1 y2 else 0)
      else if code_out AND TOP \<noteq> 0 then
        Some (clip_coordinate x1 x2 (ymax box) y1 y2,
              ymax box,
              if hasz then clip_coordinate z1 z2 (ymax box) y1 y2 else 0)
      else if hasz \<and> code_out AND FRONT \<noteq> 0 then
        Some (clip_coordinate x1 x2 (zmin box) z1 z2,
              clip_coordinate y1 y2 (zmin box) z1 z2,
              zmin box)
      else if hasz \<and> code_out AND BACK \<noteq> 0 then
        Some (clip_coordinate x1 x2 (zmax box) z1 z2,
              clip_coordinate y1 y2 (zmax box) z1 z2,
              zmax box)
      else None)"

text \<open>
  The \<^verbatim>\<open>while (true)\<close> loop of \<^verbatim>\<open>cohenSutherlandClip\<close> on its local variables. It
  returns \<open>found\<close> and the two (possibly clipped) endpoints; \<open>None\<close> stands for a loop
  that does not return.
\<close>

partial_function (option) cohenSutherlandClip_loop ::
  "STBox \<Rightarrow> bool \<Rightarrow> real \<Rightarrow> real \<Rightarrow> real \<Rightarrow> int \<Rightarrow> real \<Rightarrow> real \<Rightarrow> real \<Rightarrow> int
     \<Rightarrow> (bool \<times> (real \<times> real \<times> real) \<times> (real \<times> real \<times> real)) option" where
  "cohenSutherlandClip_loop box hasz x1 y1 z1 code1 x2 y2 z2 code2 =
     (if (code1 OR code2) = 0 then Some (True, (x1, y1, z1), (x2, y2, z2))
      else if (code1 AND code2) \<noteq> 0 then Some (False, (x1, y1, z1), (x2, y2, z2))
      else
        (let code_out = (if code1 \<noteq> 0 then code1 else code2)
         in case clip_intersection box hasz code_out x1 y1 z1 x2 y2 z2 of
              None \<Rightarrow> None
            | Some (x, y, z) \<Rightarrow>
                if code_out = code1 then
                  (let z1' = (if hasz then z else z1)
                   in cohenSutherlandClip_loop box hasz x y z1' (computeCode x y z1' hasz box)
                        x2 y2 z2 code2)
                else
                  (let z2' = (if hasz then z else z2)
                   in cohenSutherlandClip_loop box hasz x1 y1 z1 code1
                        x y z2' (computeCode x y z2' hasz box))))"

text \<open>
  What \<^verbatim>\<open>cohenSutherlandClip\<close> hands back: its result and the contents of the four
  out parameters, \<open>None\<close> for one the function does not write.
\<close>

record clip_out =
  clip_found :: bool
  clip_p3 :: "GSPOINT option"
  clip_p4 :: "GSPOINT option"
  clip_p3_inc :: "bool option"
  clip_p4_inc :: "bool option"

text \<open>
  \<^verbatim>\<open>cohenSutherlandClip\<close>: clipping the segment from \<open>p1\<close> to \<open>p2\<close> to the box. A failed
  \<^verbatim>\<open>assert\<close> is the error \<open>AssertionFailed\<close>.
\<close>

definition cohenSutherlandClip ::
  "real \<Rightarrow> GSPOINT \<Rightarrow> GSPOINT \<Rightarrow> STBox \<Rightarrow> bool \<Rightarrow> bool \<Rightarrow> (error + clip_out) option" where
  "cohenSutherlandClip eps p1 p2 box hasz border_inc =
     (if \<not> flag_x box then Some (Inl AssertionFailed)
      else if hasz \<and> \<not> (flag_z box \<and> gz p1 \<noteq> None \<and> gz p2 \<noteq> None)
        then Some (Inl AssertionFailed)
      else if gsrid p1 \<noteq> gsrid p2 then Some (Inl AssertionFailed)
      else
        (let srid = gsrid p1;
             x1 = gx p1; x2 = gx p2;
             y1 = gy p1; y2 = gy p2;
             z1 = (if hasz then point3dz_z p1 else 0);
             z2 = (if hasz then point3dz_z p2 else 0);
             code1 = computeCode x1 y1 z1 hasz box;
             code2 = computeCode x2 y2 z2 hasz box
         in case cohenSutherlandClip_loop box hasz x1 y1 z1 code1 x2 y2 z2 code2 of
              None \<Rightarrow> None
            | Some (found, (x1, y1, z1), (x2, y2, z2)) \<Rightarrow>
                if found then
                  (if \<not> border_inc then
                     (let max_code1 = computeMaxBorderCode eps x1 y1 z1 hasz box;
                          max_code2 = computeMaxBorderCode eps x2 y2 z2 hasz box
                      in if (max_code1 AND max_code2) \<noteq> 0 then
                           Some (Inr \<lparr>clip_found = False, clip_p3 = None, clip_p4 = None,
                                      clip_p3_inc = None, clip_p4_inc = None\<rparr>)
                         else
                           Some (Inr \<lparr>clip_found = True,
                                      clip_p3 = Some (gspoint_make x1 y1 z1 hasz False srid),
                                      clip_p4 = Some (gspoint_make x2 y2 z2 hasz False srid),
                                      clip_p3_inc = Some (max_code1 = 0),
                                      clip_p4_inc = Some (max_code2 = 0)\<rparr>))
                   else
                     Some (Inr \<lparr>clip_found = True,
                                clip_p3 = Some (gspoint_make x1 y1 z1 hasz False srid),
                                clip_p4 = Some (gspoint_make x2 y2 z2 hasz False srid),
                                clip_p3_inc = None, clip_p4_inc = None\<rparr>))
                else
                  Some (Inr \<lparr>clip_found = False, clip_p3 = None, clip_p4 = None,
                             clip_p3_inc = None, clip_p4_inc = None\<rparr>)))"

declare cohenSutherlandClip_loop.simps [code]

text \<open>
  Predicates used to state what the clipping does: a point lies in the closed box, it
  stays at least \<open>eps\<close> below every maximum face, and two points are both within
  \<open>eps\<close> of one same maximum face (the differences as the code computes them).
\<close>

definition inside_box :: "bool \<Rightarrow> STBox \<Rightarrow> real \<Rightarrow> real \<Rightarrow> real \<Rightarrow> bool" where
  "inside_box hasz box x y z =
     (xmin box \<le> x \<and> x \<le> xmax box \<and> ymin box \<le> y \<and> y \<le> ymax box \<and>
      (hasz \<longrightarrow> zmin box \<le> z \<and> z \<le> zmax box))"

definition clear_of_max_border :: "real \<Rightarrow> bool \<Rightarrow> STBox \<Rightarrow> real \<Rightarrow> real \<Rightarrow> real \<Rightarrow> bool" where
  "clear_of_max_border eps hasz box x y z =
     (eps \<le> double_sub (xmax box) x \<and> eps \<le> double_sub (ymax box) y \<and>
      (hasz \<longrightarrow> eps \<le> double_sub (zmax box) z))"

definition share_max_border ::
  "real \<Rightarrow> bool \<Rightarrow> STBox \<Rightarrow> real \<Rightarrow> real \<Rightarrow> real \<Rightarrow> real \<Rightarrow> real \<Rightarrow> real \<Rightarrow> bool" where
  "share_max_border eps hasz box x1 y1 z1 x2 y2 z2 =
     ((double_sub (xmax box) x1 < eps \<and> double_sub (xmax box) x2 < eps) \<or>
      (double_sub (ymax box) y1 < eps \<and> double_sub (ymax box) y2 < eps) \<or>
      (hasz \<and> double_sub (zmax box) z1 < eps \<and> double_sub (zmax box) z2 < eps))"

subsection \<open>Restriction of an instant to a spatiotemporal box\<close>

text \<open>
  \<^verbatim>\<open>tpointinst_restrict_stbox_iter\<close>: does the instant belong to the result of the
  restriction \<open>at\<close> (\<open>atfunc\<close> true) or \<open>minus\<close> (\<open>atfunc\<close> false) the box?
\<close>

definition tpointinst_restrict_stbox_iter :: "real \<Rightarrow> TInstant \<Rightarrow> STBox \<Rightarrow> bool \<Rightarrow> bool \<Rightarrow> bool" where
  "tpointinst_restrict_stbox_iter eps inst box border_inc atfunc =
     (let hasz = (inst_has_z inst \<and> flag_z box);
          hast = flag_t box
      in if hast \<and> \<not> contains_span_value (period box) (tinstant_t inst) then \<not> atfunc
         else
           (let pt = tinstant_value inst;
                x = gx pt;
                y = gy pt;
                z = (if hasz then point3dz_z pt else 0);
                code = computeCode x y z hasz box;
                max_code = (if \<not> border_inc then computeMaxBorderCode eps x y z hasz box else 0)
            in if (code OR max_code) \<noteq> 0 then \<not> atfunc else atfunc))"

text \<open>
  A point on a maximum edge of the box, or on a minimum edge, with its other coordinates
  strictly inside.
\<close>

definition on_max_edge :: "bool \<Rightarrow> STBox \<Rightarrow> real \<Rightarrow> real \<Rightarrow> real \<Rightarrow> bool" where
  "on_max_edge hasz box x y z =
     ((x = xmax box \<and> xmin box \<le> xmax box \<and> ymin box < y \<and> y < ymax box \<and>
         (hasz \<longrightarrow> zmin box < z \<and> z < zmax box)) \<or>
      (y = ymax box \<and> ymin box \<le> ymax box \<and> xmin box < x \<and> x < xmax box \<and>
         (hasz \<longrightarrow> zmin box < z \<and> z < zmax box)) \<or>
      (hasz \<and> z = zmax box \<and> zmin box \<le> zmax box \<and> xmin box < x \<and> x < xmax box \<and>
         ymin box < y \<and> y < ymax box))"

definition on_min_edge :: "bool \<Rightarrow> STBox \<Rightarrow> real \<Rightarrow> real \<Rightarrow> real \<Rightarrow> bool" where
  "on_min_edge hasz box x y z =
     ((x = xmin box \<and> xmin box \<le> xmax box \<and> ymin box < y \<and> y < ymax box \<and>
         (hasz \<longrightarrow> zmin box < z \<and> z < zmax box)) \<or>
      (y = ymin box \<and> ymin box \<le> ymax box \<and> xmin box < x \<and> x < xmax box \<and>
         (hasz \<longrightarrow> zmin box < z \<and> z < zmax box)) \<or>
      (hasz \<and> z = zmin box \<and> zmin box \<le> zmax box \<and> xmin box < x \<and> x < xmax box \<and>
         ymin box < y \<and> y < ymax box))"

text \<open>The instant's timestamp passes the test on the T dimension of the box.\<close>

definition box_time_ok :: "TInstant \<Rightarrow> STBox \<Rightarrow> bool" where
  "box_time_ok inst box = (flag_t box \<longrightarrow> contains_span_value (period box) (tinstant_t inst))"

subsection \<open>Sequences and sequence sets\<close>

text \<open>The interpolation of a sequence, in the order of the enum of the MEOS header.\<close>

datatype interpType = INTERP_NONE | DISCRETE | STEP | LINEAR

text \<open>
  A sequence: its instants (\<^verbatim>\<open>count\<close> is their number), its period (the timestamps of
  the first and last instants with the two inclusive flags) and its interpolation.
\<close>

record TSequence =
  seq_instants :: "TInstant list"
  seq_period :: "int Span"
  seq_interp :: interpType

record TSequenceSet =
  ss_sequences :: "TSequence list"

datatype Temporal =
  TINSTANT TInstant
  | TSEQUENCE TSequence
  | TSEQUENCESET TSequenceSet

definition seq_count :: "TSequence \<Rightarrow> nat" where
  "seq_count seq = length (seq_instants seq)"

definition seq_has_z :: "TSequence \<Rightarrow> bool" where
  "seq_has_z seq = (case seq_instants seq of [] \<Rightarrow> False | inst # _ \<Rightarrow> inst_has_z inst)"

definition tinstant_make :: "GSPOINT \<Rightarrow> int \<Rightarrow> TInstant" where
  "tinstant_make v t = \<lparr>tinstant_value = v, tinstant_t = t\<rparr>"

text \<open>
  Modelled from the spec: \<^verbatim>\<open>tsequence_make\<close> is not among the sources. A sequence is
  the array of its instants with the inclusive/exclusive flags of its first and last
  instant; the period runs from the first timestamp to the last. The file always asks
  for no normalization. The validity tests of the constructor are not modelled.
\<close>

definition tsequence_make :: "TInstant list \<Rightarrow> bool \<Rightarrow> bool \<Rightarrow> interpType \<Rightarrow> TSequence" where
  "tsequence_make instants lower_inc1 upper_inc1 interp =
     \<lparr>seq_instants = instants,
      seq_period = \<lparr>lower = (case instants of [] \<Rightarrow> 0 | inst # _ \<Rightarrow> tinstant_t inst),
                    upper = (case rev instants of [] \<Rightarrow> 0 | inst # _ \<Rightarrow> tinstant_t inst),
                    lower_inc = lower_inc1, upper_inc = upper_inc1\<rparr>,
      seq_interp = interp\<rparr>"

definition tsequence_copy :: "TSequence \<Rightarrow> TSequence" where
  "tsequence_copy seq = seq"

definition tinstant_copy :: "TInstant \<Rightarrow> TInstant" where
  "tinstant_copy inst = inst"

definition temporal_copy :: "Temporal \<Rightarrow> Temporal" where
  "temporal_copy temp = temp"

definition tsequence_to_tsequenceset :: "TSequence \<Rightarrow> TSequenceSet" where
  "tsequence_to_tsequenceset seq = \<lparr>ss_sequences = [seq]\<rparr>"

subsection \<open>Non self-intersecting (simple) temporal points\<close>

text \<open>
  The \<^verbatim>\<open>while (true)\<close> loop of \<^verbatim>\<open>tpointseq_discstep_find_splits\<close>: the breadth-first
  search, in the piece from \<open>start\<close> to \<open>e\<close>, of two equal values at \<open>j < k\<close>. It
  returns the \<open>k\<close> found, or \<open>None\<close> when \<open>k\<close> passes \<open>e\<close>.
\<close>

function discstep_scan :: "GSPOINT list \<Rightarrow> nat \<Rightarrow> nat \<Rightarrow> nat \<Rightarrow> nat \<Rightarrow> nat option" where
  "discstep_scan vs start e j k =
     (if datum_point_eq (vs ! j) (vs ! k) then Some k
      else if j + 1 < k then discstep_scan vs start e (j + 1) k
      else if k + 1 > e then None
      else discstep_scan vs start e start (k + 1))"
  by pat_completeness auto
termination
  by (relation "measures [\<lambda>(vs, start, e, j, k). e - k, \<lambda>(vs, start, e, j, k). k - j]") auto

declare discstep_scan.simps [simp del]

lemma discstep_scan_ge: "discstep_scan vs start e j k = Some r \<Longrightarrow> k \<le> r"
proof (induction vs start e j k rule: discstep_scan.induct)
  case (1 vs start e j k)
  from "1.prems" have p:
    "(if datum_point_eq (vs ! j) (vs ! k) then Some k
      else if j + 1 < k then discstep_scan vs start e (j + 1) k
      else if k + 1 > e then None
      else discstep_scan vs start e start (k + 1)) = Some r"
    by (subst (asm) discstep_scan.simps) simp
  show ?case
  proof (cases "datum_point_eq (vs ! j) (vs ! k)")
    case True
    then show ?thesis using p by simp
  next
    case ne: False
    show ?thesis
    proof (cases "j + 1 < k")
      case True
      then have "discstep_scan vs start e (j + 1) k = Some r" using p ne by simp
      then show ?thesis using "1.IH"(1)[OF ne True] by simp
    next
      case nj: False
      show ?thesis
      proof (cases "k + 1 > e")
        case True
        then show ?thesis using p ne nj by simp
      next
        case False
        then have "discstep_scan vs start e start (k + 1) = Some r" using p ne nj by simp
        then have "k + 1 \<le> r" using "1.IH"(2)[OF ne nj False] by simp
        then show ?thesis by simp
      qed
    qed
  qed
qed

text \<open>The outer loop \<^verbatim>\<open>while (start < end)\<close>, on the array of splits and their number.\<close>

function discstep_find_splits_from ::
  "GSPOINT list \<Rightarrow> nat \<Rightarrow> nat \<Rightarrow> bool list \<Rightarrow> nat \<Rightarrow> bool list \<times> nat" where
  "discstep_find_splits_from vs e start bitarr numsplits =
     (if start < e then
        (case discstep_scan vs start e start (start + 1) of
           Some k \<Rightarrow> discstep_find_splits_from vs e k (bitarr[k := True]) (numsplits + 1)
         | None \<Rightarrow> (bitarr, numsplits))
      else (bitarr, numsplits))"
  by pat_completeness auto
termination
proof (relation "measure (\<lambda>(vs, e, start, bitarr, numsplits). e - start)")
  show "wf (measure (\<lambda>(vs, e, start, bitarr, numsplits). e - start))" by simp
next
  fix vs :: "GSPOINT list" and e start :: nat and bitarr :: "bool list" and numsplits k :: nat
  assume a: "start < e" and b: "discstep_scan vs start e start (start + 1) = Some k"
  have "start + 1 \<le> k" using discstep_scan_ge[OF b] .
  then show "((vs, e, k, bitarr[k := True], numsplits + 1), (vs, e, start, bitarr, numsplits))
      \<in> measure (\<lambda>(vs, e, start, bitarr, numsplits). e - start)"
    using a by simp
qed

declare discstep_find_splits_from.simps [simp del]

text \<open>
  \<^verbatim>\<open>tpointseq_discstep_find_splits\<close>: the instants at which a sequence with discrete or
  step interpolation must be split, and their number.
\<close>

definition tpointseq_discstep_find_splits :: "TSequence \<Rightarrow> bool list \<times> nat" where
  "tpointseq_discstep_find_splits seq =
     discstep_find_splits_from (map tinstant_value (seq_instants seq)) (seq_count seq - 1) 0
       (replicate (seq_count seq) False) 0"

text \<open>
  The first loop of \<^verbatim>\<open>tpointseq_linear_find_splits\<close>, one round for the index \<open>i\<close>: a
  stationary segment splits the sequence on both of its sides.
\<close>

definition linear_stationary_round ::
  "POINT2D list \<Rightarrow> nat \<Rightarrow> bool list \<times> nat \<Rightarrow> nat \<Rightarrow> bool list \<times> nat" where
  "linear_stationary_round points count acc i =
     (case acc of (bitarr, numsplits) \<Rightarrow>
        if px (points ! (i - 1)) = px (points ! i) \<and> py (points ! (i - 1)) = py (points ! i) then
          (case (if i > 1 \<and> \<not> bitarr ! (i - 1)
                 then (bitarr[i - 1 := True], numsplits + 1) else (bitarr, numsplits)) of
             (bitarr, numsplits) \<Rightarrow>
               if i + 1 < count then (bitarr[i := True], numsplits + 1) else (bitarr, numsplits))
        else (bitarr, numsplits))"

text \<open>\<^verbatim>\<open>while (end < seq->count - 1 && ! bitarr[end]) end++\<close>.\<close>

function linear_find_end :: "bool list \<Rightarrow> nat \<Rightarrow> nat \<Rightarrow> nat" where
  "linear_find_end bitarr count e =
     (if e + 1 < count \<and> \<not> bitarr ! e then linear_find_end bitarr count (e + 1) else e)"
  by pat_completeness auto
termination
  by (relation "measure (\<lambda>(bitarr, count, e). count - e)") auto

declare linear_find_end.simps [simp del]

lemma linear_find_end_ge: "e \<le> linear_find_end bitarr count e"
proof (induction bitarr count e rule: linear_find_end.induct)
  case (1 bitarr count e)
  show ?case
  proof (cases "e + 1 < count \<and> \<not> bitarr ! e")
    case True
    then have "linear_find_end bitarr count e = linear_find_end bitarr count (e + 1)"
      by (subst linear_find_end.simps) simp
    then show ?thesis using "1.IH"[OF True] by simp
  next
    case False
    then have "linear_find_end bitarr count e = e"
      by (subst linear_find_end.simps) auto
    then show ?thesis by simp
  qed
qed

lemma linear_find_end_gt: "start < linear_find_end bitarr count (Suc start)"
  using linear_find_end_ge[of "Suc start" bitarr count] by simp

text \<open>
  Is the pair of segments \<open>i\<close> and \<open>j\<close> a forced cut? Their envelopes interact, and
  they intersect otherwise than in the common point of two consecutive segments. The
  point \<^verbatim>\<open>p\<close> starts as (0,0).
\<close>

definition linear_cut_here :: "real \<Rightarrow> real \<Rightarrow> POINT2D list \<Rightarrow> nat \<Rightarrow> nat \<Rightarrow> bool" where
  "linear_cut_here eps tol points i j =
     (if lw_seg_interact tol (points ! i) (points ! (i + 1)) (points ! j) (points ! (j + 1)) then
        (case seg2d_intersection eps tol (points ! i) (points ! (i + 1)) (points ! j)
                (points ! (j + 1)) of
           (intertype, written) \<Rightarrow>
             (let p = (case written of Some q \<Rightarrow> q | None \<Rightarrow> \<lparr>px = 0, py = 0\<rparr>)
              in seg_inter_int intertype > 0 \<and>
                 (intertype \<noteq> MEOS_SEG_TOUCH_END \<or> j \<noteq> i + 1 \<or>
                  px p \<noteq> px (points ! j) \<or> py p \<noteq> py (points ! j))))
      else False)"

text \<open>The loop \<^verbatim>\<open>while (j < end)\<close>: the first \<open>j\<close> at which the piece must be cut.\<close>

function linear_scan ::
  "real \<Rightarrow> real \<Rightarrow> POINT2D list \<Rightarrow> nat \<Rightarrow> nat \<Rightarrow> nat \<Rightarrow> nat \<Rightarrow> nat option" where
  "linear_scan eps tol points start e i j =
     (if j < e then
        (if linear_cut_here eps tol points i j then Some j
         else if i + 1 < j then linear_scan eps tol points start e (i + 1) j
         else linear_scan eps tol points start e start (j + 1))
      else None)"
  by pat_completeness auto
termination
  by (relation "measures [\<lambda>(eps, tol, points, start, e, i, j). e - j,
                          \<lambda>(eps, tol, points, start, e, i, j). j - i]") auto

declare linear_scan.simps [simp del]

lemma linear_scan_ge: "linear_scan eps tol points start e i j = Some r \<Longrightarrow> j \<le> r"
proof (induction eps tol points start e i j rule: linear_scan.induct)
  case (1 eps tol points start e i j)
  from "1.prems" have p:
    "(if j < e then
        (if linear_cut_here eps tol points i j then Some j
         else if i + 1 < j then linear_scan eps tol points start e (i + 1) j
         else linear_scan eps tol points start e start (j + 1))
      else None) = Some r"
    by (subst (asm) linear_scan.simps) simp
  then have je: "j < e" by (simp split: if_splits)
  show ?case
  proof (cases "linear_cut_here eps tol points i j")
    case True
    then show ?thesis using p je by simp
  next
    case nc: False
    show ?thesis
    proof (cases "i + 1 < j")
      case True
      then have "linear_scan eps tol points start e (i + 1) j = Some r" using p je nc by simp
      then show ?thesis using "1.IH"(1)[OF je nc True] by simp
    next
      case False
      then have "linear_scan eps tol points start e start (j + 1) = Some r" using p je nc by simp
      then have "j + 1 \<le> r" using "1.IH"(2)[OF je nc False] by simp
      then show ?thesis by simp
    qed
  qed
qed

text \<open>The loop \<^verbatim>\<open>while (start < seq->count - 2)\<close> over the pieces.\<close>

function linear_find_splits_from ::
  "real \<Rightarrow> real \<Rightarrow> POINT2D list \<Rightarrow> nat \<Rightarrow> nat \<Rightarrow> bool list \<Rightarrow> nat \<Rightarrow> bool list \<times> nat" where
  "linear_find_splits_from eps tol points count start bitarr numsplits =
     (if start + 2 < count then
        (if linear_find_end bitarr count (start + 1) = start + 1 then
           linear_find_splits_from eps tol points count
             (linear_find_end bitarr count (start + 1)) bitarr numsplits
         else
           (case linear_scan eps tol points start (linear_find_end bitarr count (start + 1))
                   start (start + 1) of
              Some j \<Rightarrow>
                linear_find_splits_from eps tol points count j (bitarr[j := True]) (numsplits + 1)
            | None \<Rightarrow>
                linear_find_splits_from eps tol points count
                  (linear_find_end bitarr count (start + 1)) bitarr numsplits))
      else (bitarr, numsplits))"
  by pat_completeness auto
termination
  by (relation "measure (\<lambda>(eps, tol, points, count, start, bitarr, numsplits). count - start)")
    (auto dest!: linear_scan_ge intro!: diff_less_mono2 simp: linear_find_end_gt)

declare linear_find_splits_from.simps [simp del]

text \<open>
  \<^verbatim>\<open>tpointseq_linear_find_splits\<close>: the instants at which a sequence with linear
  interpolation must be split, and their number.
\<close>

definition tpointseq_linear_find_splits :: "real \<Rightarrow> real \<Rightarrow> TSequence \<Rightarrow> bool list \<times> nat" where
  "tpointseq_linear_find_splits eps tol seq =
     (let count = seq_count seq;
          points = map (\<lambda>inst. datum_point2d (tinstant_value inst)) (seq_instants seq)
      in case foldl (linear_stationary_round points count) (replicate count False, 0) [1..<count] of
           (bitarr, numsplits) \<Rightarrow> linear_find_splits_from eps tol points count 0 bitarr numsplits)"

text \<open>
  Modelled from the spec: \<^verbatim>\<open>datumarr_sort\<close> is not among the sources; it sorts the
  values, which brings equal positions next to each other. The model sorts on the
  coordinates, the SRID and the geodetic flag.
\<close>

definition datumarr_sort :: "GSPOINT list \<Rightarrow> GSPOINT list" where
  "datumarr_sort points = sort_key (\<lambda>p. (gx p, gy p, gz p, gsrid p, ggeodetic p)) points"

text \<open>The loop over the sorted values: are two neighbours equal?\<close>

fun neighbours_equal :: "GSPOINT list \<Rightarrow> bool" where
  "neighbours_equal (p # q # points) = (datum_point_eq p q \<or> neighbours_equal (q # points))"
| "neighbours_equal points = False"

definition tpointseq_discstep_is_simple :: "TSequence \<Rightarrow> bool" where
  "tpointseq_discstep_is_simple seq =
     (\<not> neighbours_equal (datumarr_sort (map tinstant_value (seq_instants seq))))"

text \<open>\<^verbatim>\<open>tpointseq_is_simple\<close>: does the sequence not self-intersect?\<close>

definition tpointseq_is_simple :: "real \<Rightarrow> real \<Rightarrow> TSequence \<Rightarrow> bool" where
  "tpointseq_is_simple eps tol seq =
     (if seq_count seq = 1 then True
      else if seq_interp seq \<noteq> LINEAR then tpointseq_discstep_is_simple seq
      else snd (tpointseq_linear_find_splits eps tol seq) = 0)"

definition tpointseqset_is_simple :: "real \<Rightarrow> real \<Rightarrow> TSequenceSet \<Rightarrow> bool" where
  "tpointseqset_is_simple eps tol ss = list_all (tpointseq_is_simple eps tol) (ss_sequences ss)"

definition tpoint_is_simple :: "real \<Rightarrow> real \<Rightarrow> Temporal \<Rightarrow> bool" where
  "tpoint_is_simple eps tol temp =
     (case temp of
        TINSTANT inst \<Rightarrow> True
      | TSEQUENCE seq \<Rightarrow> tpointseq_is_simple eps tol seq
      | TSEQUENCESET ss \<Rightarrow> tpointseqset_is_simple eps tol ss)"

text \<open>\<^verbatim>\<open>while (end < seq->count && ! splits[end]) end++\<close> of \<^verbatim>\<open>tpointseq_disc_split\<close>.\<close>

function disc_find_end :: "bool list \<Rightarrow> nat \<Rightarrow> nat \<Rightarrow> nat" where
  "disc_find_end splits count e =
     (if e < count \<and> \<not> splits ! e then disc_find_end splits count (e + 1) else e)"
  by pat_completeness auto
termination
  by (relation "measure (\<lambda>(splits, count, e). count - e)") auto

declare disc_find_end.simps [simp del]

lemma disc_find_end_ge: "e \<le> disc_find_end splits count e"
proof (induction splits count e rule: disc_find_end.induct)
  case (1 splits count e)
  show ?case
  proof (cases "e < count \<and> \<not> splits ! e")
    case True
    then have "disc_find_end splits count e = disc_find_end splits count (e + 1)"
      by (subst disc_find_end.simps) simp
    then show ?thesis using "1.IH"[OF True] by simp
  next
    case False
    then have "disc_find_end splits count e = e"
      by (subst disc_find_end.simps) auto
    then show ?thesis by simp
  qed
qed

text \<open>The loop of \<^verbatim>\<open>tpointseq_disc_split\<close>: the pieces from \<open>start\<close> on.\<close>

function disc_split_from :: "TSequence \<Rightarrow> bool list \<Rightarrow> nat \<Rightarrow> TSequence list" where
  "disc_split_from seq splits start =
     (if start < seq_count seq then
        tsequence_make
          (take (disc_find_end splits (seq_count seq) (start + 1) - start)
             (drop start (seq_instants seq)))
          True True DISCRETE
        # disc_split_from seq splits (disc_find_end splits (seq_count seq) (start + 1))
      else [])"
  by pat_completeness auto
termination
proof (relation "measure (\<lambda>(seq, splits, start). seq_count seq - start)", goal_cases)
  case 1
  show ?case by simp
next
  case (2 seq splits start)
  have "start + 1 \<le> disc_find_end splits (seq_count seq) (start + 1)" by (rule disc_find_end_ge)
  then show ?case using 2 by simp
qed

declare disc_split_from.simps [simp del]

definition tpointseq_disc_split :: "TSequence \<Rightarrow> bool list \<Rightarrow> nat \<Rightarrow> TSequence list" where
  "tpointseq_disc_split seq splits count = disc_split_from seq splits 0"

text \<open>
  The C code hands the boolean \<^verbatim>\<open>linear\<close> to \<^verbatim>\<open>tsequence_make\<close> where an
  interpolation is expected (last fragment of \<^verbatim>\<open>tpointseq_cont_split\<close>): false is the
  first constant of the enum and true the second.
\<close>

definition interp_of_bool :: "bool \<Rightarrow> interpType" where
  "interp_of_bool is_linear = (if is_linear then DISCRETE else INTERP_NONE)"

text \<open>
  One fragment of \<^verbatim>\<open>tpointseq_cont_split\<close>, from \<open>start\<close> to \<open>e\<close> inclusive. For step
  interpolation and an exclusive upper bound the last instant takes the value of the
  one before.
\<close>

definition cont_fragment :: "TSequence \<Rightarrow> bool list \<Rightarrow> nat \<Rightarrow> nat \<Rightarrow> TSequence" where
  "cont_fragment seq splits start e =
     (let is_linear = (seq_interp seq = LINEAR);
          instants = take (e - start + 1) (drop start (seq_instants seq));
          lower_inc1 = (if start = 0 then lower_inc (seq_period seq) else True);
          upper_inc1 = (if e = seq_count seq - 1
                        then upper_inc (seq_period seq) \<and> \<not> splits ! (seq_count seq - 1)
                        else False)
      in if \<not> is_linear \<and> \<not> upper_inc1 \<and>
            \<not> datum_point_eq (tinstant_value (instants ! (e - start - 1)))
                 (tinstant_value (instants ! (e - start)))
         then tsequence_make
                (instants[e - start :=
                   tinstant_make (tinstant_value (instants ! (e - start - 1)))
                     (tinstant_t (instants ! (e - start)))])
                lower_inc1 False (if is_linear then LINEAR else STEP)
         else tsequence_make instants lower_inc1 upper_inc1 (if is_linear then LINEAR else STEP))"

text \<open>The loop \<^verbatim>\<open>while (start < seq->count - 1)\<close> of \<^verbatim>\<open>tpointseq_cont_split\<close>.\<close>

function cont_split_from :: "TSequence \<Rightarrow> bool list \<Rightarrow> nat \<Rightarrow> TSequence list \<times> nat" where
  "cont_split_from seq splits start =
     (if start + 1 < seq_count seq then
        (case cont_split_from seq splits (linear_find_end splits (seq_count seq) (start + 1)) of
           (fragments, last_start) \<Rightarrow>
             (cont_fragment seq splits start (linear_find_end splits (seq_count seq) (start + 1))
              # fragments, last_start))
      else ([], start))"
  by pat_completeness auto
termination
proof (relation "measure (\<lambda>(seq, splits, start). seq_count seq - start)", goal_cases)
  case 1
  show ?case by simp
next
  case (2 seq splits start)
  have "start + 1 \<le> linear_find_end splits (seq_count seq) (start + 1)"
    by (rule linear_find_end_ge)
  then show ?case using 2 by simp
qed

declare cont_split_from.simps [simp del]

text \<open>
  \<^verbatim>\<open>tpointseq_cont_split\<close>: the fragments of a sequence with step or linear
  interpolation; \<open>count\<close> is the number of fragments the caller expects.
\<close>

definition tpointseq_cont_split :: "TSequence \<Rightarrow> bool list \<Rightarrow> nat \<Rightarrow> TSequence list" where
  "tpointseq_cont_split seq splits count =
     (case cont_split_from seq splits 0 of
        (fragments, start) \<Rightarrow>
          if length fragments < count then
            fragments @
              [tsequence_make (take (seq_count seq - start) [last (seq_instants seq)])
                 True (upper_inc (seq_period seq)) (interp_of_bool (seq_interp seq = LINEAR))]
          else fragments)"

text \<open>\<^verbatim>\<open>tpointseq_make_simple\<close>: the non self-intersecting fragments of a sequence.\<close>

definition tpointseq_make_simple :: "real \<Rightarrow> real \<Rightarrow> TSequence \<Rightarrow> TSequence list" where
  "tpointseq_make_simple eps tol seq =
     (let interp = seq_interp seq
      in if (interp = DISCRETE \<and> seq_count seq = 1) \<or> (interp \<noteq> DISCRETE \<and> seq_count seq \<le> 2)
         then [tsequence_copy seq]
         else
           (case (if interp = LINEAR then tpointseq_linear_find_splits eps tol seq
                  else tpointseq_discstep_find_splits seq) of
              (splits, numsplits) \<Rightarrow>
                if numsplits = 0 then [tsequence_copy seq]
                else if interp = DISCRETE then tpointseq_disc_split seq splits (numsplits + 1)
                else tpointseq_cont_split seq splits (numsplits + 1)))"

definition tpointseqset_make_simple :: "real \<Rightarrow> real \<Rightarrow> TSequenceSet \<Rightarrow> TSequence list" where
  "tpointseqset_make_simple eps tol ss =
     (case ss_sequences ss of
        [seq] \<Rightarrow> tpointseq_make_simple eps tol seq
      | seqs \<Rightarrow> concat (map (tpointseq_make_simple eps tol) seqs))"

definition tpoint_make_simple :: "real \<Rightarrow> real \<Rightarrow> Temporal \<Rightarrow> Temporal list" where
  "tpoint_make_simple eps tol temp =
     (case temp of
        TINSTANT inst \<Rightarrow> [TINSTANT (tinstant_copy inst)]
      | TSEQUENCE seq \<Rightarrow> map TSEQUENCE (tpointseq_make_simple eps tol seq)
      | TSEQUENCESET ss \<Rightarrow> map TSEQUENCE (tpointseqset_make_simple eps tol ss))"

subsection \<open>Collaborators\<close>

text \<open>
  The geometry the boundary library hands back as an intersection: a point, a line (its
  points), a collection (multipoint, multiline or geometry collection), or a geometry
  of another type.
\<close>

datatype LWGEOM =
  LWPOINT GSPOINT
  | LWLINE "GSPOINT list"
  | LWCOLLECTION "LWGEOM list"
  | LWOTHER

text \<open>
  The functions of the geometry library and of the other MEOS modules that the file
  calls and that are not among the sources. They are parameters of the embedding:
  \<open>'g\<close> is the type of a serialized geometry and \<open>'f\<close> that of a temporal float. A
  pointer that may be \<^verbatim>\<open>NULL\<close> is an option, a span set the list of its spans.
\<close>

record ('g, 'f) collaborators =
  geom_intersects2d :: "GSPOINT \<Rightarrow> 'g \<Rightarrow> bool"
  gserialized_is_empty :: "'g \<Rightarrow> bool"
  gserialized_get_srid :: "'g \<Rightarrow> int"
  gserialized_has_z :: "'g \<Rightarrow> bool"
  geo_set_stbox :: "'g \<Rightarrow> STBox"
  geom_intersection2d :: "'g \<Rightarrow> 'g \<Rightarrow> 'g"
  lwgeom_from_gserialized :: "'g \<Rightarrow> LWGEOM"
  tpointseq_cont_trajectory :: "TSequence \<Rightarrow> 'g"
  geosegm_locate_point :: "GSPOINT \<Rightarrow> GSPOINT \<Rightarrow> GSPOINT \<Rightarrow> real \<times> real"
  temporal_set_bbox :: "Temporal \<Rightarrow> STBox"
  overlaps_stbox_stbox :: "STBox \<Rightarrow> STBox \<Rightarrow> bool"
  tcontseq_restrict_periodset :: "TSequence \<Rightarrow> int Span list \<Rightarrow> bool \<Rightarrow> TSequenceSet option"
  tcontseq_at_period :: "TSequence \<Rightarrow> int Span \<Rightarrow> TSequence option"
  tsequenceset_restrict_periodset ::
    "TSequenceSet \<Rightarrow> int Span list \<Rightarrow> bool \<Rightarrow> TSequenceSet option"
  temporal_restrict_period :: "Temporal \<Rightarrow> int Span \<Rightarrow> bool \<Rightarrow> Temporal option"
  tsequenceset_time :: "TSequenceSet \<Rightarrow> int Span list"
  tseqarr_normalize :: "TSequence list \<Rightarrow> TSequence list"
  spanarr_normalize :: "int Span list \<Rightarrow> int Span list"
  spanarr_sort :: "int Span list \<Rightarrow> int Span list"
  spanset_make_free :: "int Span list \<Rightarrow> bool \<Rightarrow> int Span list"
  tsegment_value_at_timestamp :: "TInstant \<Rightarrow> TInstant \<Rightarrow> interpType \<Rightarrow> int \<Rightarrow> GSPOINT"
  tpoint_get_coord :: "TSequenceSet \<Rightarrow> nat \<Rightarrow> 'f"
  tnumber_restrict_span :: "'f \<Rightarrow> real Span \<Rightarrow> bool \<Rightarrow> 'f option"
  temporal_time :: "'f \<Rightarrow> int Span list"

text \<open>The bounding box of a sequence and of a sequence set.\<close>

definition tsequence_set_bbox :: "('g, 'f) collaborators \<Rightarrow> TSequence \<Rightarrow> STBox" where
  "tsequence_set_bbox ext seq = temporal_set_bbox ext (TSEQUENCE seq)"

definition tsequenceset_set_bbox :: "('g, 'f) collaborators \<Rightarrow> TSequenceSet \<Rightarrow> STBox" where
  "tsequenceset_set_bbox ext ss = temporal_set_bbox ext (TSEQUENCESET ss)"

text \<open>
  Modelled from the spec: \<^verbatim>\<open>span_set\<close>, \<^verbatim>\<open>overlaps_span_span\<close> and \<^verbatim>\<open>inter_span_span\<close>
  are not among the sources; a span is a one-dimensional interval with
  inclusive/exclusive bounds at each end.
\<close>

definition span_set :: "'a \<Rightarrow> 'a \<Rightarrow> bool \<Rightarrow> bool \<Rightarrow> 'a Span" where
  "span_set l u l_inc u_inc = \<lparr>lower = l, upper = u, lower_inc = l_inc, upper_inc = u_inc\<rparr>"

definition overlaps_span_span :: "('a::linorder) Span \<Rightarrow> 'a Span \<Rightarrow> bool" where
  "overlaps_span_span s1 s2 =
     ((lower s1 < upper s2 \<or> (lower s1 = upper s2 \<and> lower_inc s1 \<and> upper_inc s2)) \<and>
      (lower s2 < upper s1 \<or> (lower s2 = upper s1 \<and> lower_inc s2 \<and> upper_inc s1)))"

definition inter_span_span :: "('a::linorder) Span \<Rightarrow> 'a Span \<Rightarrow> 'a Span option" where
  "inter_span_span s1 s2 =
     (if \<not> overlaps_span_span s1 s2 then None
      else Some
        \<lparr>lower = max (lower s1) (lower s2),
         upper = min (upper s1) (upper s2),
         lower_inc = (if lower s1 = lower s2 then lower_inc s1 \<and> lower_inc s2
                      else if lower s1 > lower s2 then lower_inc s1 else lower_inc s2),
         upper_inc = (if upper s1 = upper s2 then upper_inc s1 \<and> upper_inc s2
                      else if upper s1 < upper s2 then upper_inc s1 else upper_inc s2)\<rparr>)"

text \<open>
  Modelled from the spec: \<^verbatim>\<open>tsequenceset_make_free\<close> is not among the sources; a
  sequence set is an ordered, non-empty array of sequences, so there is none
  (\<^verbatim>\<open>NULL\<close>) for an array of zero sequences.
\<close>

definition tsequenceset_make_free ::
  "('g, 'f) collaborators \<Rightarrow> TSequence list \<Rightarrow> bool \<Rightarrow> TSequenceSet option" where
  "tsequenceset_make_free ext sequences do_normalize =
     (if sequences = [] then None
      else Some \<lparr>ss_sequences = (if do_normalize then tseqarr_normalize ext sequences
                                   else sequences)\<rparr>)"

text \<open>
  Modelled from the spec: \<^verbatim>\<open>tseqsetarr_to_tseqset\<close> is not among the sources; it
  reassembles the sequences of the sequence sets into one sequence set.
\<close>

definition tseqsetarr_to_tseqset :: "TSequenceSet option list \<Rightarrow> TSequenceSet" where
  "tseqsetarr_to_tseqset seqsets =
     \<lparr>ss_sequences =
        concat (map (\<lambda>r. case r of None \<Rightarrow> [] | Some ss \<Rightarrow> ss_sequences ss) seqsets)\<rparr>"

text \<open>
  Modelled from the spec: the \<^verbatim>\<open>ensure_\<close> tests are not among the sources; a mismatch
  of the spatial reference identifiers or of the dimensionality is rejected with
  \<open>InvalidArgument\<close>.
\<close>

definition ensure_same_srid :: "int \<Rightarrow> int \<Rightarrow> error + unit" where
  "ensure_same_srid srid1 srid2 = (if srid1 \<noteq> srid2 then Inl InvalidArgument else Inr ())"

definition ensure_has_not_Z_gs :: "('g, 'f) collaborators \<Rightarrow> 'g \<Rightarrow> error + unit" where
  "ensure_has_not_Z_gs ext gs = (if gserialized_has_z ext gs then Inl InvalidArgument else Inr ())"

definition ensure_has_Z :: "bool \<Rightarrow> error + unit" where
  "ensure_has_Z flags_z = (if \<not> flags_z then Inl InvalidArgument else Inr ())"

definition ensure_same_geodetic :: "bool \<Rightarrow> bool \<Rightarrow> error + unit" where
  "ensure_same_geodetic geodetic1 geodetic2 =
     (if geodetic1 \<noteq> geodetic2 then Inl InvalidArgument else Inr ())"

text \<open>The first instant of a temporal value, which carries its SRID and its flags.\<close>

definition temporal_start_instant :: "Temporal \<Rightarrow> TInstant option" where
  "temporal_start_instant temp =
     (case temp of
        TINSTANT inst \<Rightarrow> Some inst
      | TSEQUENCE seq \<Rightarrow> (case seq_instants seq of [] \<Rightarrow> None | inst # _ \<Rightarrow> Some inst)
      | TSEQUENCESET ss \<Rightarrow>
          (case ss_sequences ss of
             [] \<Rightarrow> None
           | seq # _ \<Rightarrow> (case seq_instants seq of [] \<Rightarrow> None | inst # _ \<Rightarrow> Some inst)))"

definition tpoint_srid :: "Temporal \<Rightarrow> int" where
  "tpoint_srid temp =
     (case temporal_start_instant temp of None \<Rightarrow> 0 | Some inst \<Rightarrow> gsrid (tinstant_value inst))"

definition temporal_has_z :: "Temporal \<Rightarrow> bool" where
  "temporal_has_z temp =
     (case temporal_start_instant temp of None \<Rightarrow> False | Some inst \<Rightarrow> inst_has_z inst)"

definition temporal_geodetic :: "Temporal \<Rightarrow> bool" where
  "temporal_geodetic temp =
     (case temporal_start_instant temp of
        None \<Rightarrow> False
      | Some inst \<Rightarrow> ggeodetic (tinstant_value inst))"

definition stbox_srid :: "STBox \<Rightarrow> int" where
  "stbox_srid box = box_srid box"

text \<open>Sequencing of computations that may fail.\<close>

definition bind_error :: "error + 'a \<Rightarrow> ('a \<Rightarrow> error + 'b) \<Rightarrow> error + 'b" where
  "bind_error r f = (case r of Inl e \<Rightarrow> Inl e | Inr v \<Rightarrow> f v)"

subsection \<open>Force a temporal point to be 2D\<close>

definition point_force2d :: "GSPOINT \<Rightarrow> int \<Rightarrow> GSPOINT" where
  "point_force2d point srid = gspoint_make (gx point) (gy point) 0 False False srid"

text \<open>
  \<^verbatim>\<open>tpoint_force2d\<close> lifts \<^verbatim>\<open>point_force2d\<close> to a temporal point. The lifting
  function is not among the sources: the model applies the function to the value of
  every instant.
\<close>

definition tinstant_force2d :: "int \<Rightarrow> TInstant \<Rightarrow> TInstant" where
  "tinstant_force2d srid inst =
     inst\<lparr>tinstant_value := point_force2d (tinstant_value inst) srid\<rparr>"

definition tsequence_force2d :: "int \<Rightarrow> TSequence \<Rightarrow> TSequence" where
  "tsequence_force2d srid seq = seq\<lparr>seq_instants := map (tinstant_force2d srid) (seq_instants seq)\<rparr>"

definition tpoint_force2d :: "Temporal \<Rightarrow> Temporal" where
  "tpoint_force2d temp =
     (let srid = tpoint_srid temp
      in case temp of
           TINSTANT inst \<Rightarrow> TINSTANT (tinstant_force2d srid inst)
         | TSEQUENCE seq \<Rightarrow> TSEQUENCE (tsequence_force2d srid seq)
         | TSEQUENCESET ss \<Rightarrow>
             TSEQUENCESET (ss\<lparr>ss_sequences := map (tsequence_force2d srid) (ss_sequences ss)\<rparr>))"

subsection \<open>Restriction to a geometry and possibly a Z span and a period\<close>

text \<open>
  \<^verbatim>\<open>tpointinst_restrict_geom_time_iter\<close>: does the instant belong to the restriction
  \<open>at\<close> (\<open>atfunc\<close> true) or \<open>minus\<close> the geometry, the Z span and the period? A span that
  is not given (\<^verbatim>\<open>NULL\<close>) is \<open>None\<close>.
\<close>

definition tpointinst_restrict_geom_time_iter ::
  "('g, 'f) collaborators \<Rightarrow> TInstant \<Rightarrow> 'g \<Rightarrow> real Span option \<Rightarrow> int Span option \<Rightarrow> bool
     \<Rightarrow> bool" where
  "tpointinst_restrict_geom_time_iter ext inst gs zspan period1 atfunc =
     (if (case period1 of None \<Rightarrow> False
          | Some p \<Rightarrow> \<not> contains_span_value p (tinstant_t inst)) then \<not> atfunc
      else if (case zspan of None \<Rightarrow> False
               | Some zs \<Rightarrow> \<not> contains_span_value zs (point3dz_z (tinstant_value inst)))
        then \<not> atfunc
      else if \<not> geom_intersects2d ext (tinstant_value inst) gs then \<not> atfunc
      else atfunc)"

definition tpointinst_restrict_geom_time ::
  "('g, 'f) collaborators \<Rightarrow> TInstant \<Rightarrow> 'g \<Rightarrow> real Span option \<Rightarrow> int Span option \<Rightarrow> bool
     \<Rightarrow> TInstant option" where
  "tpointinst_restrict_geom_time ext inst gs zspan period1 atfunc =
     (if tpointinst_restrict_geom_time_iter ext inst gs zspan period1 atfunc
      then Some (tinstant_copy inst) else None)"

text \<open>
  The body of the restriction of a discrete sequence, the same for the geometry and
  for the box: \<open>keep\<close> is the test on an instant.
\<close>

definition disc_restrict :: "(TInstant \<Rightarrow> bool) \<Rightarrow> TSequence \<Rightarrow> TSequence option" where
  "disc_restrict keep seq =
     (case seq_instants seq of
        [inst] \<Rightarrow> if keep inst then Some (tsequence_copy seq) else None
      | instants \<Rightarrow>
          (let kept = filter keep instants
           in if length kept > 0 then Some (tsequence_make kept True True DISCRETE) else None))"

definition tpointseq_disc_restrict_geom_time ::
  "('g, 'f) collaborators \<Rightarrow> TSequence \<Rightarrow> 'g \<Rightarrow> real Span option \<Rightarrow> int Span option \<Rightarrow> bool
     \<Rightarrow> error + TSequence option" where
  "tpointseq_disc_restrict_geom_time ext seq gs zspan period1 atfunc =
     (if seq_interp seq \<noteq> DISCRETE then Inl AssertionFailed
      else Inr (disc_restrict
                  (\<lambda>inst. tpointinst_restrict_geom_time_iter ext inst gs zspan period1 atfunc)
                  seq))"

text \<open>
  Closing a run of passing instants of a step sequence at the failing instant \<open>inst\<close>:
  the last passing value is continued until the time of \<open>inst\<close>, projected to the
  time span when there is one.
\<close>

definition step_close_run ::
  "TSequence \<Rightarrow> int Span option \<Rightarrow> TInstant list \<Rightarrow> TInstant \<Rightarrow> TSequence" where
  "step_close_run seq timespan run inst =
     (let v = tinstant_value (last run);
          closed =
            (case timespan of
               Some ts \<Rightarrow>
                 (case inter_span_span ts
                         (span_set (tinstant_t (last run)) (tinstant_t inst) True False) of
                    Some inter1 \<Rightarrow>
                      if lower inter1 \<noteq> upper inter1
                      then (run @ [tinstant_make v (upper inter1)], False)
                      else (run, True)
                  | None \<Rightarrow> (run, False))
             | None \<Rightarrow> (run @ [tinstant_make v (tinstant_t inst)], False))
      in case closed of
           (instants, upper_inc1) \<Rightarrow>
             tsequence_make instants
               (if tinstant_t (hd instants) = lower (seq_period seq)
                then lower_inc (seq_period seq) else True)
               upper_inc1 STEP)"

text \<open>
  The loop over the instants of a step sequence (the same loop in
  \<^verbatim>\<open>tpointseq_step_at_geom_time_iter\<close> and \<^verbatim>\<open>tpointseq_step_at_stbox_iter\<close>): \<open>run\<close> are
  the \<open>k\<close> passing instants collected so far and \<open>sequences\<close> the \<open>l\<close> sequences made.
\<close>

fun step_at_loop ::
  "(TInstant \<Rightarrow> bool) \<Rightarrow> TSequence \<Rightarrow> int Span option \<Rightarrow> TInstant list \<Rightarrow> TInstant list
     \<Rightarrow> TSequence list \<Rightarrow> TSequence list" where
  "step_at_loop keep seq timespan [] run sequences =
     (if length run > 0 then
        sequences @
          [tsequence_make run
             (if tinstant_t (hd run) = lower (seq_period seq)
              then lower_inc (seq_period seq) else True)
             (if tinstant_t (last run) = upper (seq_period seq)
              then upper_inc (seq_period seq) else False)
             STEP]
      else sequences)"
| "step_at_loop keep seq timespan (inst # rest) run sequences =
     (if keep inst then step_at_loop keep seq timespan rest (run @ [inst]) sequences
      else if length run > 0 then
        step_at_loop keep seq timespan rest []
          (sequences @ [step_close_run seq timespan run inst])
      else step_at_loop keep seq timespan rest run sequences)"

text \<open>
  The body of the two iteration functions: the time span of the result is computed
  first when a period restricts the time (\<open>period1\<close> is the period given, or the
  period of the box when it has a T dimension); without intersection no sequence is
  returned.
\<close>

definition step_at_iter ::
  "(TInstant \<Rightarrow> bool) \<Rightarrow> TSequence \<Rightarrow> int Span option \<Rightarrow> TSequence list" where
  "step_at_iter keep seq period1 =
     (case period1 of
        Some p \<Rightarrow>
          (case inter_span_span (seq_period seq) p of
             None \<Rightarrow> []
           | Some timespan \<Rightarrow> step_at_loop keep seq (Some timespan) (seq_instants seq) [] [])
      | None \<Rightarrow> step_at_loop keep seq None (seq_instants seq) [] [])"

definition tpointseq_step_at_geom_time_iter ::
  "('g, 'f) collaborators \<Rightarrow> TSequence \<Rightarrow> 'g \<Rightarrow> real Span option \<Rightarrow> int Span option
     \<Rightarrow> error + TSequence list" where
  "tpointseq_step_at_geom_time_iter ext seq gs zspan period1 =
     (if seq_interp seq \<noteq> STEP then Inl AssertionFailed
      else Inr (step_at_iter
                  (\<lambda>inst. tpointinst_restrict_geom_time_iter ext inst gs zspan period1 True)
                  seq period1))"

text \<open>
  The complement with respect to time of an \<open>at\<close> result: \<^verbatim>\<open>tsequenceset_time\<close> reads
  the result, so \<^verbatim>\<open>NULL\<close> there is an error.
\<close>

definition minus_of_at ::
  "('g, 'f) collaborators \<Rightarrow> TSequence \<Rightarrow> TSequenceSet option \<Rightarrow> error + TSequenceSet option" where
  "minus_of_at ext seq result_at =
     (case result_at of
        None \<Rightarrow> Inl NullPointer
      | Some ra \<Rightarrow> Inr (tcontseq_restrict_periodset ext seq (tsequenceset_time ext ra) False))"

text \<open>
  The body of the restriction of a step sequence, the same for the geometry and for
  the box: \<open>keep\<close> is the test of the requested restriction on an instant and \<open>iter\<close>
  the call of the iteration function.
\<close>

definition step_restrict ::
  "('g, 'f) collaborators \<Rightarrow> (TInstant \<Rightarrow> bool) \<Rightarrow> error + TSequence list \<Rightarrow> TSequence \<Rightarrow> bool
     \<Rightarrow> error + TSequenceSet option" where
  "step_restrict ext keep iter seq atfunc =
     (if seq_interp seq \<noteq> STEP then Inl AssertionFailed
      else
        (case seq_instants seq of
           [inst] \<Rightarrow> Inr (if keep inst then Some (tsequence_to_tsequenceset seq) else None)
         | _ \<Rightarrow>
             bind_error iter (\<lambda>sequences.
               if length sequences = 0
               then Inr (if atfunc then None else Some (tsequence_to_tsequenceset seq))
               else
                 (let result_at = tsequenceset_make_free ext sequences False
                  in if atfunc then Inr result_at else minus_of_at ext seq result_at))))"

definition tpointseq_step_restrict_geom_time ::
  "('g, 'f) collaborators \<Rightarrow> TSequence \<Rightarrow> 'g \<Rightarrow> real Span option \<Rightarrow> int Span option \<Rightarrow> bool
     \<Rightarrow> error + TSequenceSet option" where
  "tpointseq_step_restrict_geom_time ext seq gs zspan period1 atfunc =
     step_restrict ext
       (\<lambda>inst. tpointinst_restrict_geom_time_iter ext inst gs zspan period1 atfunc)
       (tpointseq_step_at_geom_time_iter ext seq gs zspan period1) seq atfunc"

text \<open>
  The conversion \<^verbatim>\<open>(TimestampTz)\<close> of a double truncates toward zero (a double beyond
  the range of int64 is not modelled), and the conversion \<^verbatim>\<open>(double)\<close> of an int64
  rounds to the nearest double.
\<close>

definition double_to_timestamptz :: "real \<Rightarrow> int" where
  "double_to_timestamptz x = (if x \<ge> 0 then \<lfloor>x\<rfloor> else \<lceil>x\<rceil>)"

definition double_of_timestamptz :: "int \<Rightarrow> real" where
  "double_of_timestamptz t = binary64 (real_of_int t)"

text \<open>
  \<^verbatim>\<open>tpointsegm_timestamp_at_value1\<close>: the timestamp at which a segment takes a value,
  \<open>None\<close> when the function returns false (it writes no timestamp then).
\<close>

definition tpointsegm_timestamp_at_value1 ::
  "('g, 'f) collaborators \<Rightarrow> real \<Rightarrow> TInstant \<Rightarrow> TInstant \<Rightarrow> GSPOINT \<Rightarrow> int option" where
  "tpointsegm_timestamp_at_value1 ext eps inst1 inst2 v =
     (let value1 = tinstant_value inst1;
          value2 = tinstant_value inst2
      in if datum_point_eq value1 v then Some (tinstant_t inst1)
         else if datum_point_eq value2 v then Some (tinstant_t inst2)
         else
           (case geosegm_locate_point ext value1 value2 v of
              (fraction, dist1) \<Rightarrow>
                if \<bar>dist1\<bar> \<ge> eps then None
                else
                  (let duration = double_of_timestamptz (tinstant_t inst2 - tinstant_t inst1)
                   in Some (tinstant_t inst1 +
                            double_to_timestamptz (double_mul duration fraction)))))"

text \<open>
  \<^verbatim>\<open>tpointseq_timestamp_at_value\<close>: the first segment of the sequence that takes the
  value gives the timestamp; when none does the function raises an error.
\<close>

fun timestamp_at_value_loop ::
  "('g, 'f) collaborators \<Rightarrow> real \<Rightarrow> TInstant \<Rightarrow> TInstant list \<Rightarrow> GSPOINT \<Rightarrow> error + int" where
  "timestamp_at_value_loop ext eps inst1 [] v = Inl InternalError"
| "timestamp_at_value_loop ext eps inst1 (inst2 # rest) v =
     (case tpointsegm_timestamp_at_value1 ext eps inst1 inst2 v of
        Some t \<Rightarrow> Inr t
      | None \<Rightarrow> timestamp_at_value_loop ext eps inst2 rest v)"

definition tpointseq_timestamp_at_value ::
  "('g, 'f) collaborators \<Rightarrow> real \<Rightarrow> TSequence \<Rightarrow> GSPOINT \<Rightarrow> error + int" where
  "tpointseq_timestamp_at_value ext eps seq v =
     (case seq_instants seq of
        [] \<Rightarrow> Inl InternalError
      | inst1 # rest \<Rightarrow> timestamp_at_value_loop ext eps inst1 rest v)"

text \<open>
  \<^verbatim>\<open>tpointseq_interperiods\<close>: the periods at which a linear sequence intersects a
  geometry, from the intersection \<open>gsinter\<close> of its trajectory with the geometry.

  The period of an intersection at one timestamp: it is kept unless it is at an
  exclusive bound of the sequence.
\<close>

definition interperiods_instant :: "TSequence \<Rightarrow> int \<Rightarrow> int Span list" where
  "interperiods_instant seq t1 =
     (let start = hd (seq_instants seq);
          end1 = last (seq_instants seq)
      in if (lower_inc (seq_period seq) \<or> t1 > tinstant_t start) \<and>
            (upper_inc (seq_period seq) \<or> t1 < tinstant_t end1)
         then [span_set t1 t1 True True] else [])"

text \<open>
  One round of the loop, for an intersection that is a point or a linestring. The
  pointer to the linestring is \<^verbatim>\<open>NULL\<close> when the geometry is of another type, and the
  first point of a linestring without points is \<^verbatim>\<open>NULL\<close>.
\<close>

definition interperiods_geom ::
  "('g, 'f) collaborators \<Rightarrow> real \<Rightarrow> TSequence \<Rightarrow> LWGEOM \<Rightarrow> error + int Span list" where
  "interperiods_geom ext eps seq geom =
     (case geom of
        LWPOINT p \<Rightarrow>
          bind_error (tpointseq_timestamp_at_value ext eps seq p) (\<lambda>t1.
            Inr (interperiods_instant seq t1))
      | LWLINE points \<Rightarrow>
          if points = [] then Inl NullPointer
          else
            bind_error (tpointseq_timestamp_at_value ext eps seq (hd points)) (\<lambda>t1.
            bind_error (tpointseq_timestamp_at_value ext eps seq (last points)) (\<lambda>t2.
              if t1 = t2 then Inr (interperiods_instant seq t1)
              else
                (let start = hd (seq_instants seq);
                     end1 = last (seq_instants seq);
                     lower1 = min t1 t2;
                     upper1 = max t1 t2;
                     lower_inc1 = (if lower1 = tinstant_t start
                                   then lower_inc (seq_period seq) else True);
                     upper_inc1 = (if upper1 = tinstant_t end1
                                   then upper_inc (seq_period seq) else True)
                 in Inr [span_set lower1 upper1 lower_inc1 upper_inc1])))
      | _ \<Rightarrow> Inl NullPointer)"

fun interperiods_loop ::
  "('g, 'f) collaborators \<Rightarrow> real \<Rightarrow> TSequence \<Rightarrow> LWGEOM list \<Rightarrow> error + int Span list" where
  "interperiods_loop ext eps seq [] = Inr []"
| "interperiods_loop ext eps seq (geom # geoms) =
     bind_error (interperiods_geom ext eps seq geom) (\<lambda>periods.
     bind_error (interperiods_loop ext eps seq geoms) (\<lambda>more. Inr (periods @ more)))"

text \<open>
  The function: an array of \<open>count\<close> periods (\<^verbatim>\<open>NULL\<close> and 0 are the empty list). With a
  collection of exactly one geometry the loop reads the collection itself as a
  linestring.
\<close>

definition tpointseq_interperiods ::
  "('g, 'f) collaborators \<Rightarrow> real \<Rightarrow> TSequence \<Rightarrow> 'g \<Rightarrow> error + int Span list" where
  "tpointseq_interperiods ext eps seq gsinter =
     (if \<not> seq_count seq > 1 then Inl AssertionFailed
      else if seq_count seq = 2 \<and>
              datum_point_eq (tinstant_value (hd (seq_instants seq)))
                (tinstant_value (last (seq_instants seq)))
        then Inr [seq_period seq]
      else
        bind_error
          (case lwgeom_from_gserialized ext gsinter of
             LWPOINT p \<Rightarrow> interperiods_geom ext eps seq (LWPOINT p)
           | LWLINE points \<Rightarrow> interperiods_geom ext eps seq (LWLINE points)
           | LWCOLLECTION geoms \<Rightarrow>
               if length geoms = 1 then Inl NullPointer
               else interperiods_loop ext eps seq geoms
           | LWOTHER \<Rightarrow> Inl NullPointer)
          (\<lambda>periods.
             if length periods = 0 then Inr []
             else if length periods = 1 then Inr periods
             else Inr (spanarr_normalize ext periods)))"

text \<open>
  \<^verbatim>\<open>tpointseq_linear_at_geom\<close>: the restriction of a linear sequence to a geometry.
  The periods of the simple fragments are collected in order.
\<close>

fun linear_at_geom_periods ::
  "('g, 'f) collaborators \<Rightarrow> real \<Rightarrow> 'g \<Rightarrow> TSequence list \<Rightarrow> error + int Span list" where
  "linear_at_geom_periods ext eps gs [] = Inr []"
| "linear_at_geom_periods ext eps gs (simpleseq # simpleseqs) =
     (let traj = tpointseq_cont_trajectory ext simpleseq;
          gsinter = geom_intersection2d ext traj gs
      in bind_error
           (if \<not> gserialized_is_empty ext gsinter
            then tpointseq_interperiods ext eps simpleseq gsinter else Inr [])
           (\<lambda>periods.
              bind_error (linear_at_geom_periods ext eps gs simpleseqs) (\<lambda>more.
                Inr (periods @ more))))"

definition tpointseq_linear_at_geom ::
  "('g, 'f) collaborators \<Rightarrow> real \<Rightarrow> real \<Rightarrow> TSequence \<Rightarrow> 'g \<Rightarrow> error + TSequenceSet option" where
  "tpointseq_linear_at_geom ext eps tol seq gs =
     (if seq_interp seq \<noteq> LINEAR then Inl AssertionFailed
      else
        (case seq_instants seq of
           [inst] \<Rightarrow>
             Inr (if \<not> tpointinst_restrict_geom_time_iter ext inst gs None None True then None
                  else Some (tsequence_to_tsequenceset seq))
         | _ \<Rightarrow>
             if \<not> overlaps_stbox_stbox ext (tsequence_set_bbox ext seq) (geo_set_stbox ext gs)
             then Inr None
             else
               (let hasz = seq_has_z seq;
                    seq2d = (if hasz then tsequence_force2d (tpoint_srid (TSEQUENCE seq)) seq
                             else seq);
                    simpleseqs = tpointseq_make_simple eps tol seq2d
                in bind_error
                     (if length simpleseqs = 1
                      then linear_at_geom_periods ext eps gs [seq2d]
                      else bind_error (linear_at_geom_periods ext eps gs simpleseqs)
                             (\<lambda>allperiods.
                                Inr (if length allperiods = 0 then []
                                     else spanarr_sort ext allperiods)))
                     (\<lambda>allperiods.
                        if length allperiods = 0 then Inr None
                        else
                          (let ps = spanset_make_free ext allperiods True
                           in Inr (tcontseq_restrict_periodset ext seq ps True))))))"

text \<open>
  \<^verbatim>\<open>tpointseq_linear_at_geom_time\<close>: the sequence is first restricted to the period,
  then to the geometry, then to the Z span.
\<close>

definition tpointseq_linear_at_geom_time ::
  "('g, 'f) collaborators \<Rightarrow> real \<Rightarrow> real \<Rightarrow> TSequence \<Rightarrow> 'g \<Rightarrow> real Span option
     \<Rightarrow> int Span option \<Rightarrow> error + TSequenceSet option" where
  "tpointseq_linear_at_geom_time ext eps tol seq gs zspan period1 =
     (if seq_interp seq \<noteq> LINEAR then Inl AssertionFailed
      else
        (case seq_instants seq of
           [inst] \<Rightarrow>
             Inr (if tpointinst_restrict_geom_time_iter ext inst gs zspan period1 True
                  then Some (tsequence_to_tsequenceset seq) else None)
         | _ \<Rightarrow>
             (let at_t =
                    (case period1 of
                       Some p \<Rightarrow>
                         if overlaps_span_span (seq_period seq) p
                         then tcontseq_at_period ext seq p else None
                     | None \<Rightarrow> Some seq)
              in bind_error
                   (case at_t of
                      Some s \<Rightarrow> tpointseq_linear_at_geom ext eps tol s gs
                    | None \<Rightarrow> Inr None)
                   (\<lambda>at_xt.
                      case at_xt of
                        None \<Rightarrow> Inr None
                      | Some xt \<Rightarrow>
                          (case zspan of
                             None \<Rightarrow> Inr (Some xt)
                           | Some zs \<Rightarrow>
                               (let box1 = tsequenceset_set_bbox ext xt;
                                    zspan1 = span_set (zmin box1) (zmax box1) True True
                                in if overlaps_span_span zspan1 zs
                                   then
                                     (let tfloat_z = tpoint_get_coord ext xt 2
                                      in case tnumber_restrict_span ext tfloat_z zs True of
                                           Some tfloat_zspan \<Rightarrow>
                                             Inr (tsequenceset_restrict_periodset ext xt
                                                    (temporal_time ext tfloat_zspan) True)
                                         | None \<Rightarrow> Inr None)
                                   else Inr None))))))"

definition tpointseq_linear_restrict_geom_time ::
  "('g, 'f) collaborators \<Rightarrow> real \<Rightarrow> real \<Rightarrow> TSequence \<Rightarrow> 'g \<Rightarrow> real Span option
     \<Rightarrow> int Span option \<Rightarrow> bool \<Rightarrow> error + TSequenceSet option" where
  "tpointseq_linear_restrict_geom_time ext eps tol seq gs zspan period1 atfunc =
     (if seq_interp seq \<noteq> LINEAR then Inl AssertionFailed
      else
        bind_error (tpointseq_linear_at_geom_time ext eps tol seq gs zspan period1)
          (\<lambda>result_at.
             if atfunc then Inr result_at
             else
               (case result_at of
                  None \<Rightarrow> Inr (Some (tsequence_to_tsequenceset seq))
                | Some ra \<Rightarrow> minus_of_at ext seq (Some ra))))"

text \<open>
  The dispatch on the interpolation. The result is a temporal value: a sequence for
  the discrete interpolation and a sequence set otherwise.
\<close>

definition temporal_of_sequence :: "error + TSequence option \<Rightarrow> error + Temporal option" where
  "temporal_of_sequence r = bind_error r (\<lambda>res. Inr (map_option TSEQUENCE res))"

definition temporal_of_sequenceset ::
  "error + TSequenceSet option \<Rightarrow> error + Temporal option" where
  "temporal_of_sequenceset r = bind_error r (\<lambda>res. Inr (map_option TSEQUENCESET res))"

definition tpointseq_restrict_geom_time ::
  "('g, 'f) collaborators \<Rightarrow> real \<Rightarrow> real \<Rightarrow> TSequence \<Rightarrow> 'g \<Rightarrow> real Span option
     \<Rightarrow> int Span option \<Rightarrow> bool \<Rightarrow> error + Temporal option" where
  "tpointseq_restrict_geom_time ext eps tol seq gs zspan period1 atfunc =
     (let interp = seq_interp seq
      in if interp = DISCRETE
         then temporal_of_sequence
                (tpointseq_disc_restrict_geom_time ext seq gs zspan period1 atfunc)
         else if interp = STEP
         then temporal_of_sequenceset
                (tpointseq_step_restrict_geom_time ext seq gs zspan period1 atfunc)
         else temporal_of_sequenceset
                (tpointseq_linear_restrict_geom_time ext eps tol seq gs zspan period1 atfunc))"

text \<open>
  The cast \<^verbatim>\<open>(TSequenceSet *)\<close> of the result of the restriction of a sequence: the
  code relies on the sequences of a sequence set being continuous.
\<close>

definition as_tsequenceset :: "error + Temporal option \<Rightarrow> error + TSequenceSet option" where
  "as_tsequenceset r =
     bind_error r (\<lambda>res.
       case res of
         None \<Rightarrow> Inr None
       | Some (TSEQUENCESET ss) \<Rightarrow> Inr (Some ss)
       | Some _ \<Rightarrow> Inl InvalidCast)"

text \<open>
  The loop over the sequences of a sequence set, the same for the geometry and for
  the box: \<open>restr\<close> is the restriction of a sequence and \<open>box2\<close> the box of the region.
  A sequence whose bounding box does not overlap is skipped for \<open>at\<close>.
\<close>

fun seqset_restrict_loop ::
  "('g, 'f) collaborators \<Rightarrow> (TSequence \<Rightarrow> error + Temporal option) \<Rightarrow> STBox \<Rightarrow> bool
     \<Rightarrow> TSequence list \<Rightarrow> error + TSequenceSet option list" where
  "seqset_restrict_loop ext restr box2 atfunc [] = Inr []"
| "seqset_restrict_loop ext restr box2 atfunc (seq # seqs) =
     bind_error
       (if atfunc \<and> \<not> overlaps_stbox_stbox ext (tsequence_set_bbox ext seq) box2
        then Inr None else as_tsequenceset (restr seq))
       (\<lambda>seqset.
          bind_error (seqset_restrict_loop ext restr box2 atfunc seqs) (\<lambda>seqsets.
            Inr (seqset # seqsets)))"

definition seqset_restrict ::
  "('g, 'f) collaborators \<Rightarrow> (TSequence \<Rightarrow> error + Temporal option) \<Rightarrow> STBox \<Rightarrow> bool
     \<Rightarrow> TSequenceSet \<Rightarrow> error + TSequenceSet option" where
  "seqset_restrict ext restr box2 atfunc ss =
     (case ss_sequences ss of
        [seq] \<Rightarrow> as_tsequenceset (restr seq)
      | sequences \<Rightarrow>
          bind_error (seqset_restrict_loop ext restr box2 atfunc sequences) (\<lambda>seqsets.
            let totalseqs =
                  sum_list (map (\<lambda>r. case r of None \<Rightarrow> 0
                                      | Some s \<Rightarrow> length (ss_sequences s)) seqsets)
            in if totalseqs > 0 then Inr (Some (tseqsetarr_to_tseqset seqsets))
               else Inr None))"

definition tpointseqset_restrict_geom_time ::
  "('g, 'f) collaborators \<Rightarrow> real \<Rightarrow> real \<Rightarrow> TSequenceSet \<Rightarrow> 'g \<Rightarrow> real Span option
     \<Rightarrow> int Span option \<Rightarrow> bool \<Rightarrow> error + TSequenceSet option" where
  "tpointseqset_restrict_geom_time ext eps tol ss gs zspan period1 atfunc =
     seqset_restrict ext
       (\<lambda>seq. tpointseq_restrict_geom_time ext eps tol seq gs zspan period1 atfunc)
       (geo_set_stbox ext gs) atfunc ss"

text \<open>
  \<^verbatim>\<open>tpoint_restrict_geom_time\<close>: the entry point. The result is a temporal value, none
  (\<^verbatim>\<open>NULL\<close>), or the error of a parameter test.
\<close>

definition geom_time_box ::
  "('g, 'f) collaborators \<Rightarrow> 'g \<Rightarrow> real Span option \<Rightarrow> int Span option \<Rightarrow> STBox" where
  "geom_time_box ext gs zspan period1 =
     (let box2 = geo_set_stbox ext gs;
          box2z = (case zspan of
                     Some zs \<Rightarrow> box2\<lparr>zmin := lower zs, zmax := upper zs, flag_z := True\<rparr>
                   | None \<Rightarrow> box2)
      in case period1 of
           Some p \<Rightarrow> box2z\<lparr>period := p, flag_t := True\<rparr>
         | None \<Rightarrow> box2z)"

definition tpoint_restrict_geom_time ::
  "('g, 'f) collaborators \<Rightarrow> real \<Rightarrow> real \<Rightarrow> Temporal \<Rightarrow> 'g \<Rightarrow> real Span option
     \<Rightarrow> int Span option \<Rightarrow> bool \<Rightarrow> error + Temporal option" where
  "tpoint_restrict_geom_time ext eps tol temp gs zspan period1 atfunc =
     (if gserialized_is_empty ext gs
      then Inr (if atfunc then None else Some (temporal_copy temp))
      else
        bind_error (ensure_same_srid (tpoint_srid temp) (gserialized_get_srid ext gs)) (\<lambda>_.
        bind_error (ensure_has_not_Z_gs ext gs) (\<lambda>_.
        bind_error (if zspan \<noteq> None then ensure_has_Z (temporal_has_z temp) else Inr ()) (\<lambda>_.
          let box1 = temporal_set_bbox ext temp;
              box2 = geom_time_box ext gs zspan period1;
              overlaps = overlaps_stbox_stbox ext box1 box2
          in if \<not> overlaps then Inr (if atfunc then None else Some (temporal_copy temp))
             else
               (case temp of
                  TINSTANT inst \<Rightarrow>
                    Inr (map_option TINSTANT
                           (tpointinst_restrict_geom_time ext inst gs zspan period1 atfunc))
                | TSEQUENCE seq \<Rightarrow>
                    tpointseq_restrict_geom_time ext eps tol seq gs zspan period1 atfunc
                | TSEQUENCESET ss \<Rightarrow>
                    temporal_of_sequenceset
                      (tpointseqset_restrict_geom_time ext eps tol ss gs zspan period1
                         atfunc))))))"

subsection \<open>Restriction to a spatiotemporal box\<close>

definition tpointinst_restrict_stbox ::
  "real \<Rightarrow> TInstant \<Rightarrow> STBox \<Rightarrow> bool \<Rightarrow> bool \<Rightarrow> TInstant option" where
  "tpointinst_restrict_stbox eps inst box border_inc atfunc =
     (if tpointinst_restrict_stbox_iter eps inst box border_inc atfunc
      then Some (tinstant_copy inst) else None)"

definition tpointseq_disc_restrict_stbox ::
  "real \<Rightarrow> TSequence \<Rightarrow> STBox \<Rightarrow> bool \<Rightarrow> bool \<Rightarrow> error + TSequence option" where
  "tpointseq_disc_restrict_stbox eps seq box border_inc atfunc =
     (if seq_interp seq \<noteq> DISCRETE then Inl AssertionFailed
      else Inr (disc_restrict
                  (\<lambda>inst. tpointinst_restrict_stbox_iter eps inst box border_inc atfunc) seq))"

definition tpointseq_step_at_stbox_iter ::
  "real \<Rightarrow> TSequence \<Rightarrow> STBox \<Rightarrow> bool \<Rightarrow> error + TSequence list" where
  "tpointseq_step_at_stbox_iter eps seq box border_inc =
     Inr (step_at_iter (\<lambda>inst. tpointinst_restrict_stbox_iter eps inst box border_inc True) seq
            (if flag_t box then Some (period box) else None))"

definition tpointseq_step_restrict_stbox ::
  "('g, 'f) collaborators \<Rightarrow> real \<Rightarrow> TSequence \<Rightarrow> STBox \<Rightarrow> bool \<Rightarrow> bool
     \<Rightarrow> error + TSequenceSet option" where
  "tpointseq_step_restrict_stbox ext eps seq box border_inc atfunc =
     step_restrict ext
       (\<lambda>inst. tpointinst_restrict_stbox_iter eps inst box border_inc atfunc)
       (tpointseq_step_at_stbox_iter eps seq box border_inc) seq atfunc"

text \<open>
  \<^verbatim>\<open>tpointseq_linear_at_stbox_xyz\<close>, one round of the loop over the segments: the
  sequences (none or one) that the segment from \<open>inst1\<close> to \<open>inst2\<close> adds to the result.
  The code does not test what \<^verbatim>\<open>tpointsegm_timestamp_at_value1\<close> returns: when it
  returns false the timestamp that is read next was never written.
\<close>

definition linear_at_stbox_segment ::
  "('g, 'f) collaborators \<Rightarrow> real \<Rightarrow> STBox \<Rightarrow> bool \<Rightarrow> bool \<Rightarrow> bool \<Rightarrow> TInstant \<Rightarrow> TInstant
     \<Rightarrow> bool \<Rightarrow> bool \<Rightarrow> error + TSequence list" where
  "linear_at_stbox_segment ext eps box border_inc hasz_seq hasz inst1 inst2
       lower_inc0 upper_inc0 =
     (let p1 = tinstant_value inst1;
          p2 = tinstant_value inst2
      in if datum_point_eq p1 p2 then
           (let x = gx p1;
                y = gy p1;
                z = (if hasz then point3dz_z p1 else 0);
                code = computeCode x y z hasz box;
                max_code = (if \<not> border_inc then computeMaxBorderCode eps x y z hasz box else 0)
            in if (code OR max_code) = 0
               then Inr [tsequence_make [inst1, inst2] lower_inc0 upper_inc0 LINEAR]
               else Inr [])
         else
           (case cohenSutherlandClip eps p1 p2 box hasz border_inc of
              None \<Rightarrow> Inl NoReturn
            | Some (Inl e) \<Rightarrow> Inl e
            | Some (Inr out) \<Rightarrow>
                if \<not> clip_found out then Inr []
                else
                  bind_error
                    (if \<not> border_inc then
                       (case (clip_p3_inc out, clip_p4_inc out) of
                          (Some p3_inc, Some p4_inc) \<Rightarrow>
                            Inr (lower_inc0 \<and> p3_inc, upper_inc0 \<and> p4_inc)
                        | _ \<Rightarrow> Inl UninitialisedRead)
                     else Inr (lower_inc0, upper_inc0))
                    (\<lambda>(lower_inc1, upper_inc1).
                       case (clip_p3 out, clip_p4 out) of
                         (Some p3, Some p4) \<Rightarrow>
                           (let seg1 = (if hasz_seq \<and> \<not> hasz
                                        then tinstant_force2d
                                               (tpoint_srid (TINSTANT inst1)) inst1
                                        else inst1)
                            in case (tpointsegm_timestamp_at_value1 ext eps seg1 inst2 p3,
                                     tpointsegm_timestamp_at_value1 ext eps seg1 inst2 p4) of
                                 (Some t1, Some t2) \<Rightarrow>
                                   (let inter1 =
                                          (if t1 \<noteq> tinstant_t inst1
                                           then tsegment_value_at_timestamp ext inst1 inst2
                                                  LINEAR t1
                                           else p1);
                                        inter2 =
                                          (if t2 \<noteq> tinstant_t inst2
                                           then tsegment_value_at_timestamp ext inst1 inst2
                                                  LINEAR t2
                                           else p2)
                                    in if t1 \<noteq> t2 \<or> t1 \<noteq> tinstant_t inst2 \<or> upper_inc1
                                       then
                                         (if \<not> datum_point_eq inter1 inter2
                                          then Inr [tsequence_make
                                                      [tinstant_make inter1 t1,
                                                       tinstant_make inter2 t2]
                                                      lower_inc1 upper_inc1 LINEAR]
                                          else Inr [tsequence_make [tinstant_make inter1 t1]
                                                      True True LINEAR])
                                       else Inr [])
                               | _ \<Rightarrow> Inl UninitialisedRead)
                       | _ \<Rightarrow> Inl UninitialisedRead)))"

fun linear_at_stbox_loop ::
  "('g, 'f) collaborators \<Rightarrow> real \<Rightarrow> TSequence \<Rightarrow> STBox \<Rightarrow> bool \<Rightarrow> bool \<Rightarrow> bool \<Rightarrow> TInstant
     \<Rightarrow> bool \<Rightarrow> TInstant list \<Rightarrow> error + TSequence list" where
  "linear_at_stbox_loop ext eps seq box border_inc hasz_seq hasz inst1 lower_inc0 [] = Inr []"
| "linear_at_stbox_loop ext eps seq box border_inc hasz_seq hasz inst1 lower_inc0
       (inst2 # rest) =
     (let upper_inc0 = (if rest = [] then upper_inc (seq_period seq) else False)
      in bind_error
           (linear_at_stbox_segment ext eps box border_inc hasz_seq hasz inst1 inst2
              lower_inc0 upper_inc0)
           (\<lambda>made.
              bind_error
                (linear_at_stbox_loop ext eps seq box border_inc hasz_seq hasz inst2 True rest)
                (\<lambda>more. Inr (made @ more))))"

text \<open>
  The function returns an array and its count: \<open>None\<close> is the \<^verbatim>\<open>NULL\<close> array. In the
  general case the array is allocated before the loop, so the result is an array
  also when no segment adds a sequence.
\<close>

definition tpointseq_linear_at_stbox_xyz ::
  "('g, 'f) collaborators \<Rightarrow> real \<Rightarrow> TSequence \<Rightarrow> STBox \<Rightarrow> bool
     \<Rightarrow> error + TSequence list option" where
  "tpointseq_linear_at_stbox_xyz ext eps seq box border_inc =
     (if seq_interp seq \<noteq> LINEAR then Inl AssertionFailed
      else
        (case seq_instants seq of
           [] \<Rightarrow> Inr (Some [])
         | [inst] \<Rightarrow>
             Inr (if tpointinst_restrict_stbox_iter eps inst box border_inc True
                  then Some [tsequence_copy seq] else None)
         | inst1 # rest \<Rightarrow>
             (let hasz_seq = seq_has_z seq;
                  hasz_box = flag_z box;
                  hasz = (hasz_seq \<and> hasz_box)
              in bind_error
                   (linear_at_stbox_loop ext eps seq box border_inc hasz_seq hasz inst1
                      (lower_inc (seq_period seq)) rest)
                   (\<lambda>sequences. Inr (Some sequences)))))"

definition tpointseq_linear_at_stbox_iter ::
  "('g, 'f) collaborators \<Rightarrow> real \<Rightarrow> TSequence \<Rightarrow> STBox \<Rightarrow> bool
     \<Rightarrow> error + TSequence list option" where
  "tpointseq_linear_at_stbox_iter ext eps seq box border_inc =
     (if seq_interp seq \<noteq> LINEAR then Inl AssertionFailed
      else
        (case seq_instants seq of
           [inst] \<Rightarrow>
             Inr (if tpointinst_restrict_stbox_iter eps inst box border_inc True
                  then Some [tsequence_copy seq] else None)
         | _ \<Rightarrow>
             (case (if flag_t box then tcontseq_at_period ext seq (period box) else Some seq) of
                Some seq_t \<Rightarrow> tpointseq_linear_at_stbox_xyz ext eps seq_t box border_inc
              | None \<Rightarrow> Inr None)))"

text \<open>
  \<^verbatim>\<open>tpointseq_linear_restrict_stbox\<close>: only the \<^verbatim>\<open>NULL\<close> array is taken as the empty
  \<open>at\<close> result; an array of zero sequences goes on to \<^verbatim>\<open>tsequenceset_make_free\<close>.
\<close>

definition tpointseq_linear_restrict_stbox ::
  "('g, 'f) collaborators \<Rightarrow> real \<Rightarrow> TSequence \<Rightarrow> STBox \<Rightarrow> bool \<Rightarrow> bool
     \<Rightarrow> error + TSequenceSet option" where
  "tpointseq_linear_restrict_stbox ext eps seq box border_inc atfunc =
     bind_error (tpointseq_linear_at_stbox_iter ext eps seq box border_inc) (\<lambda>res.
       case res of
         None \<Rightarrow> Inr (if atfunc then None else Some (tsequence_to_tsequenceset seq))
       | Some sequences \<Rightarrow>
           (let result_at = tsequenceset_make_free ext sequences True
            in if atfunc then Inr result_at else minus_of_at ext seq result_at))"

definition tpointseq_restrict_stbox ::
  "('g, 'f) collaborators \<Rightarrow> real \<Rightarrow> TSequence \<Rightarrow> STBox \<Rightarrow> bool \<Rightarrow> bool
     \<Rightarrow> error + Temporal option" where
  "tpointseq_restrict_stbox ext eps seq box border_inc atfunc =
     (let interp = seq_interp seq
      in if interp = DISCRETE
         then temporal_of_sequence (tpointseq_disc_restrict_stbox eps seq box border_inc atfunc)
         else if interp = STEP
         then temporal_of_sequenceset
                (tpointseq_step_restrict_stbox ext eps seq box border_inc atfunc)
         else temporal_of_sequenceset
                (tpointseq_linear_restrict_stbox ext eps seq box border_inc atfunc))"

definition tpointseqset_restrict_stbox ::
  "('g, 'f) collaborators \<Rightarrow> real \<Rightarrow> TSequenceSet \<Rightarrow> STBox \<Rightarrow> bool \<Rightarrow> bool
     \<Rightarrow> error + TSequenceSet option" where
  "tpointseqset_restrict_stbox ext eps ss box border_inc atfunc =
     seqset_restrict ext (\<lambda>seq. tpointseq_restrict_stbox ext eps seq box border_inc atfunc)
       box atfunc ss"

text \<open>
  \<^verbatim>\<open>tpoint_restrict_stbox\<close>: the entry point. A box with only the T dimension goes to the
  restriction to a period.
\<close>

definition tpoint_restrict_stbox ::
  "('g, 'f) collaborators \<Rightarrow> real \<Rightarrow> Temporal \<Rightarrow> STBox \<Rightarrow> bool \<Rightarrow> bool
     \<Rightarrow> error + Temporal option" where
  "tpoint_restrict_stbox ext eps temp box border_inc atfunc =
     (let hasx = flag_x box;
          hast = flag_t box
      in if \<not> (hasx \<or> hast) then Inl AssertionFailed
         else if hast \<and> \<not> hasx then Inr (temporal_restrict_period ext temp (period box) atfunc)
         else
           bind_error (ensure_same_srid (tpoint_srid temp) (stbox_srid box)) (\<lambda>_.
           bind_error (ensure_same_geodetic (temporal_geodetic temp) (flag_geodetic box)) (\<lambda>_.
             let box1 = temporal_set_bbox ext temp;
                 overlaps = overlaps_stbox_stbox ext box1 box
             in if \<not> overlaps then Inr (if atfunc then None else Some (temporal_copy temp))
                else
                  (case temp of
                     TINSTANT inst \<Rightarrow>
                       Inr (map_option TINSTANT
                              (tpointinst_restrict_stbox eps inst box border_inc atfunc))
                   | TSEQUENCE seq \<Rightarrow>
                       tpointseq_restrict_stbox ext eps seq box border_inc atfunc
                   | TSEQUENCESET ss \<Rightarrow>
                       temporal_of_sequenceset
                         (tpointseqset_restrict_stbox ext eps ss box border_inc atfunc)))))"

subsection \<open>An instance of the collaborators\<close>

text \<open>
  The collaborators for geometries that are finite sets of points (multipoints), a
  geometry being the list of its points, and a temporal float being the list of its
  timestamped values. The instance serves to run the entry points on concrete
  trajectories. The tests on points, the SRID, the dimensions and the bounding boxes
  are those of such geometries, in exact arithmetic; the trajectory of a sequence is
  taken as the set of the points of its instants, and the restrictions to periods keep
  the instants that lie in them.
\<close>

definition same_xy :: "GSPOINT \<Rightarrow> GSPOINT \<Rightarrow> bool" where
  "same_xy p q = (gx p = gx q \<and> gy p = gy q)"

definition points_stbox :: "GSPOINT list \<Rightarrow> int Span option \<Rightarrow> STBox" where
  "points_stbox points period1 =
     \<lparr>flag_x = True,
      flag_z = (case points of [] \<Rightarrow> False | p # _ \<Rightarrow> gz p \<noteq> None),
      flag_t = (period1 \<noteq> None),
      flag_geodetic = (case points of [] \<Rightarrow> False | p # _ \<Rightarrow> ggeodetic p),
      box_srid = (case points of [] \<Rightarrow> 0 | p # _ \<Rightarrow> gsrid p),
      xmin = (case points of [] \<Rightarrow> 0 | p # ps \<Rightarrow> fold min (map gx ps) (gx p)),
      xmax = (case points of [] \<Rightarrow> 0 | p # ps \<Rightarrow> fold max (map gx ps) (gx p)),
      ymin = (case points of [] \<Rightarrow> 0 | p # ps \<Rightarrow> fold min (map gy ps) (gy p)),
      ymax = (case points of [] \<Rightarrow> 0 | p # ps \<Rightarrow> fold max (map gy ps) (gy p)),
      zmin = (case points of [] \<Rightarrow> 0 | p # ps \<Rightarrow> fold min (map point3dz_z ps) (point3dz_z p)),
      zmax = (case points of [] \<Rightarrow> 0 | p # ps \<Rightarrow> fold max (map point3dz_z ps) (point3dz_z p)),
      period = (case period1 of Some p \<Rightarrow> p | None \<Rightarrow> span_set 0 0 True True)\<rparr>"

definition temporal_instants :: "Temporal \<Rightarrow> TInstant list" where
  "temporal_instants temp =
     (case temp of
        TINSTANT inst \<Rightarrow> [inst]
      | TSEQUENCE seq \<Rightarrow> seq_instants seq
      | TSEQUENCESET ss \<Rightarrow> concat (map seq_instants (ss_sequences ss)))"

definition temporal_period :: "Temporal \<Rightarrow> int Span" where
  "temporal_period temp =
     (case temp of
        TINSTANT inst \<Rightarrow> span_set (tinstant_t inst) (tinstant_t inst) True True
      | TSEQUENCE seq \<Rightarrow> seq_period seq
      | TSEQUENCESET ss \<Rightarrow>
          (case ss_sequences ss of
             [] \<Rightarrow> span_set 0 0 True True
           | seq # seqs \<Rightarrow>
               span_set (lower (seq_period seq)) (upper (seq_period (last (seq # seqs))))
                 (lower_inc (seq_period seq)) (upper_inc (seq_period (last (seq # seqs))))))"

definition example_overlaps_stbox_stbox :: "STBox \<Rightarrow> STBox \<Rightarrow> bool" where
  "example_overlaps_stbox_stbox box1 box2 =
     ((if flag_x box1 \<and> flag_x box2
       then xmin box1 \<le> xmax box2 \<and> xmin box2 \<le> xmax box1 \<and>
            ymin box1 \<le> ymax box2 \<and> ymin box2 \<le> ymax box1
       else True) \<and>
      (if flag_z box1 \<and> flag_z box2
       then zmin box1 \<le> zmax box2 \<and> zmin box2 \<le> zmax box1 else True) \<and>
      (if flag_t box1 \<and> flag_t box2
       then overlaps_span_span (period box1) (period box2) else True))"

definition example_restrict_instants ::
  "(TInstant \<Rightarrow> bool) \<Rightarrow> TSequence \<Rightarrow> TSequence list" where
  "example_restrict_instants keep seq =
     map (\<lambda>inst. tsequence_make [inst] True True (seq_interp seq))
       (filter keep (seq_instants seq))"

definition in_spans :: "int Span list \<Rightarrow> bool \<Rightarrow> TInstant \<Rightarrow> bool" where
  "in_spans spans atfunc inst =
     (list_ex (\<lambda>s. contains_span_value s (tinstant_t inst)) spans = atfunc)"

text \<open>
  The point of the segment from \<open>p1\<close> to \<open>p2\<close> nearest to \<open>p\<close>, as the fraction of the
  segment where it lies, and its distance to \<open>p\<close>.
\<close>

definition example_locate_point :: "GSPOINT \<Rightarrow> GSPOINT \<Rightarrow> GSPOINT \<Rightarrow> real \<times> real" where
  "example_locate_point p1 p2 p =
     (let dx = gx p2 - gx p1;
          dy = gy p2 - gy p1;
          len2 = dx * dx + dy * dy;
          r = (if len2 = 0 then 0
               else ((gx p - gx p1) * dx + (gy p - gy p1) * dy) / len2);
          fraction = (if r < 0 then 0 else if r > 1 then 1 else r);
          qx = gx p1 + fraction * dx;
          qy = gy p1 + fraction * dy
      in (fraction, sqrt ((gx p - qx) * (gx p - qx) + (gy p - qy) * (gy p - qy))))"

text \<open>The value of a segment at a timestamp: interpolated when the segment is linear.\<close>

definition example_value_at_timestamp ::
  "TInstant \<Rightarrow> TInstant \<Rightarrow> interpType \<Rightarrow> int \<Rightarrow> GSPOINT" where
  "example_value_at_timestamp inst1 inst2 interp t =
     (let p1 = tinstant_value inst1;
          p2 = tinstant_value inst2
      in if interp \<noteq> LINEAR \<or> tinstant_t inst2 = tinstant_t inst1 then
           (if t = tinstant_t inst2 then p2 else p1)
         else
           (let r = real_of_int (t - tinstant_t inst1) /
                    real_of_int (tinstant_t inst2 - tinstant_t inst1)
            in p1\<lparr>gx := gx p1 + r * (gx p2 - gx p1),
                     gy := gy p1 + r * (gy p2 - gy p1),
                     gz := (case (gz p1, gz p2) of
                              (Some z1, Some z2) \<Rightarrow> Some (z1 + r * (z2 - z1))
                            | _ \<Rightarrow> None)\<rparr>))"

definition example_collaborators :: "(GSPOINT list, (int \<times> real) list) collaborators" where
  "example_collaborators =
     \<lparr>geom_intersects2d = (\<lambda>p gs. list_ex (same_xy p) gs),
      gserialized_is_empty = (\<lambda>gs. gs = []),
      gserialized_get_srid = (\<lambda>gs. case gs of [] \<Rightarrow> 0 | p # _ \<Rightarrow> gsrid p),
      gserialized_has_z = (\<lambda>gs. case gs of [] \<Rightarrow> False | p # _ \<Rightarrow> gz p \<noteq> None),
      geo_set_stbox = (\<lambda>gs. points_stbox gs None),
      geom_intersection2d = (\<lambda>traj gs. filter (\<lambda>p. list_ex (same_xy p) traj) gs),
      lwgeom_from_gserialized =
        (\<lambda>gs. case gs of [p] \<Rightarrow> LWPOINT p | _ \<Rightarrow> LWCOLLECTION (map LWPOINT gs)),
      tpointseq_cont_trajectory = (\<lambda>seq. map tinstant_value (seq_instants seq)),
      geosegm_locate_point = example_locate_point,
      temporal_set_bbox =
        (\<lambda>temp. points_stbox (map tinstant_value (temporal_instants temp))
                   (Some (temporal_period temp))),
      overlaps_stbox_stbox = example_overlaps_stbox_stbox,
      tcontseq_restrict_periodset =
        (\<lambda>seq spans atfunc.
           case example_restrict_instants (in_spans spans atfunc) seq of
             [] \<Rightarrow> None
           | sequences \<Rightarrow> Some \<lparr>ss_sequences = sequences\<rparr>),
      tcontseq_at_period =
        (\<lambda>seq p.
           case filter (in_spans [p] True) (seq_instants seq) of
             [] \<Rightarrow> None
           | instants \<Rightarrow> Some (tsequence_make instants True True (seq_interp seq))),
      tsequenceset_restrict_periodset =
        (\<lambda>ss spans atfunc.
           case concat (map (example_restrict_instants (in_spans spans atfunc))
                          (ss_sequences ss)) of
             [] \<Rightarrow> None
           | sequences \<Rightarrow> Some \<lparr>ss_sequences = sequences\<rparr>),
      temporal_restrict_period =
        (\<lambda>temp p atfunc.
           case filter (in_spans [p] atfunc) (temporal_instants temp) of
             [] \<Rightarrow> None
           | [inst] \<Rightarrow> Some (TINSTANT inst)
           | instants \<Rightarrow> Some (TSEQUENCE (tsequence_make instants True True DISCRETE))),
      tsequenceset_time = (\<lambda>ss. map seq_period (ss_sequences ss)),
      tseqarr_normalize = (\<lambda>sequences. sequences),
      spanarr_normalize = (\<lambda>spans. sort_key lower (remdups spans)),
      spanarr_sort = (\<lambda>spans. sort_key lower spans),
      spanset_make_free = (\<lambda>spans do_normalize. if do_normalize then remdups spans else spans),
      tsegment_value_at_timestamp = example_value_at_timestamp,
      tpoint_get_coord =
        (\<lambda>ss n. map (\<lambda>inst. (tinstant_t inst,
                                 if n = 0 then gx (tinstant_value inst)
                                 else if n = 1 then gy (tinstant_value inst)
                                 else point3dz_z (tinstant_value inst)))
                   (concat (map seq_instants (ss_sequences ss)))),
      tnumber_restrict_span =
        (\<lambda>tfloat s atfunc.
           case filter (\<lambda>(t, v). contains_span_value s v = atfunc) tfloat of
             [] \<Rightarrow> None
           | kept \<Rightarrow> Some kept),
      temporal_time = (\<lambda>tfloat. map (\<lambda>(t, v). span_set t t True True) tfloat)\<rparr>"

section \<open>Properties\<close>

subsection \<open>Rounding to binary64\<close>

text \<open>Rules to compute the rounding of a number given by numerals.\<close>

lemma binary_exponent_up_numeral:
  "binary_exponent_up (numeral k) x =
     (if x < 2 then 0 else binary_exponent_up (pred_numeral k) (x / 2) + 1)"
  by (simp add: numeral_eq_Suc)

lemma binary_exponent_down_numeral:
  "binary_exponent_down (numeral k) x =
     (if 1 \<le> x then 0 else binary_exponent_down (pred_numeral k) (2 * x) - 1)"
  by (simp add: numeral_eq_Suc)

lemma binary64_zero: "binary64 0 = 0"
  by (simp add: binary64_def round_half_even_def)

lemma binary64_nonzero:
  "x \<noteq> 0 \<Longrightarrow>
     binary64 x =
       of_int (round_half_even (x / 2 powi (binary64_exponent x - 52))) *
       2 powi (binary64_exponent x - 52)"
  by (simp add: binary64_def Let_def)

lemmas binary64_eval = binary64_zero binary64_nonzero binary64_exponent_def
  binary_exponent_up_numeral binary_exponent_down_numeral round_half_even_def Let_def
  double_add_def double_sub_def double_mul_def double_div_def is_double_def

text \<open>The rounding is monotone and keeps the sign.\<close>

lemma round_half_even_bounds:
  "of_int (round_half_even r) \<le> r + 1 / 2" "r - 1 / 2 \<le> of_int (round_half_even r)"
  unfolding round_half_even_def Let_def by (auto; linarith)+

lemma round_half_even_of_int: "round_half_even (of_int n) = n"
  by (simp add: round_half_even_def)

lemma round_half_even_mono:
  assumes "r \<le> s"
  shows "round_half_even r \<le> round_half_even s"
proof -
  have fl: "\<lfloor>r\<rfloor> \<le> \<lfloor>s\<rfloor>" using assms by (rule floor_mono)
  show ?thesis
  proof (cases "\<lfloor>r\<rfloor> = \<lfloor>s\<rfloor>")
    case True
    then show ?thesis using assms
      unfolding round_half_even_def Let_def by auto
  next
    case False
    then have lt: "\<lfloor>r\<rfloor> + 1 \<le> \<lfloor>s\<rfloor>" using fl by linarith
    have a: "round_half_even r \<le> \<lfloor>r\<rfloor> + 1"
      unfolding round_half_even_def Let_def by auto
    have b: "\<lfloor>s\<rfloor> \<le> round_half_even s"
      unfolding round_half_even_def Let_def by auto
    show ?thesis using a b lt by linarith
  qed
qed











lemma binary64_exponent_abs: "binary64_exponent (- x) = binary64_exponent x"
  by (simp add: binary64_exponent_def)

lemma binary64_quantum_pos: "0 < (2::real) powi k"
  by (rule zero_less_power_int) simp

lemma binary64_nonneg: "0 \<le> x \<Longrightarrow> 0 \<le> binary64 x"
proof -
  assume x: "0 \<le> x"
  define q :: real where "q = 2 powi (binary64_exponent x - 52)"
  have q: "0 < q" unfolding q_def by (rule binary64_quantum_pos)
  have "0 \<le> x / q" using x q by simp
  then have "round_half_even 0 \<le> round_half_even (x / q)" by (rule round_half_even_mono)
  then have "0 \<le> round_half_even (x / q)" using round_half_even_of_int [of 0] by simp
  then show ?thesis using q unfolding binary64_def Let_def q_def [symmetric] by simp
qed

lemma binary64_nonpos: "x \<le> 0 \<Longrightarrow> binary64 x \<le> 0"
proof -
  assume x: "x \<le> 0"
  define q :: real where "q = 2 powi (binary64_exponent x - 52)"
  have q: "0 < q" unfolding q_def by (rule binary64_quantum_pos)
  have "x / q \<le> 0" using x q by (simp add: divide_nonpos_pos)
  then have "round_half_even (x / q) \<le> round_half_even 0" by (rule round_half_even_mono)
  then have "round_half_even (x / q) \<le> 0" using round_half_even_of_int [of 0] by simp
  then have "of_int (round_half_even (x / q)) * q \<le> 0"
    using q by (simp add: mult_le_0_iff)
  then show ?thesis unfolding binary64_def Let_def q_def [symmetric] by simp
qed








lemma double_sub_self: "double_sub x x = 0"
  by (simp add: double_sub_def binary64_zero)




subsection \<open>Region codes as sets of bits\<close>

lemma bit_computeCode:
  "bit (computeCode x y z hasz box) n \<longleftrightarrow>
     (n = 0 \<and> x < xmin box) \<or> (n = 1 \<and> \<not> x < xmin box \<and> x > xmax box) \<or>
     (n = 2 \<and> y < ymin box) \<or> (n = 3 \<and> \<not> y < ymin box \<and> y > ymax box) \<or>
     (n = 4 \<and> hasz \<and> z < zmin box) \<or> (n = 5 \<and> hasz \<and> \<not> z < zmin box \<and> z > zmax box)"
proof -
  have b1: "bit (1::int) n \<longleftrightarrow> n = 0" by (simp add: bit_1_iff)
  have b2: "bit (2::int) n \<longleftrightarrow> n = 1" using bit_exp_iff[of 1 n, where ?'a = int] by auto
  have b4: "bit (4::int) n \<longleftrightarrow> n = 2" using bit_exp_iff[of 2 n, where ?'a = int] by auto
  have b8: "bit (8::int) n \<longleftrightarrow> n = 3" using bit_exp_iff[of 3 n, where ?'a = int] by auto
  have b16: "bit (16::int) n \<longleftrightarrow> n = 4" using bit_exp_iff[of 4 n, where ?'a = int] by auto
  have b32: "bit (32::int) n \<longleftrightarrow> n = 5" using bit_exp_iff[of 5 n, where ?'a = int] by auto
  define cx :: int where "cx = (if x < xmin box then LEFT else if x > xmax box then RIGHT else 0)"
  define cy :: int where "cy = (if y < ymin box then BOTTOM else if y > ymax box then TOP else 0)"
  define cz :: int where "cz = (if hasz then (if z < zmin box then FRONT else if z > zmax box then BACK else 0) else 0)"
  have c: "computeCode x y z hasz box = cx OR cy OR cz"
    unfolding computeCode_def Let_def INSIDE_def cx_def cy_def cz_def by (simp add: or.assoc)
  have bx: "bit cx n \<longleftrightarrow> (n = 0 \<and> x < xmin box) \<or> (n = 1 \<and> \<not> x < xmin box \<and> x > xmax box)"
    unfolding cx_def LEFT_def RIGHT_def using b1 b2 by simp
  have by': "bit cy n \<longleftrightarrow> (n = 2 \<and> y < ymin box) \<or> (n = 3 \<and> \<not> y < ymin box \<and> y > ymax box)"
    unfolding cy_def BOTTOM_def TOP_def using b4 b8 by simp
  have bz: "bit cz n \<longleftrightarrow> (n = 4 \<and> hasz \<and> z < zmin box) \<or> (n = 5 \<and> hasz \<and> \<not> z < zmin box \<and> z > zmax box)"
    unfolding cz_def FRONT_def BACK_def using b16 b32 by simp
  show ?thesis unfolding c bit_or_iff bx by' bz by blast
qed

lemma and_bit_iff: "(c AND (2::int) ^ k) \<noteq> 0 \<longleftrightarrow> bit c k"
  by (simp add: bit_iff_and_push_bit_not_eq_0 push_bit_eq_mult)

lemma and_ne0_iff: "((a::int) AND b) \<noteq> 0 \<longleftrightarrow> (\<exists>n. bit a n \<and> bit b n)"
  by (auto simp: bit_eq_iff bit_and_iff)

lemma or_eq0_iff: "((a::int) OR b) = 0 \<longleftrightarrow> a = 0 \<and> b = 0"
  by (auto simp: bit_eq_iff bit_or_iff)

lemma int_eq0_bit: "(a::int) = 0 \<longleftrightarrow> (\<forall>n. \<not> bit a n)"
  by (auto simp: bit_eq_iff)

lemma bit_computeMaxBorderCode:
  "bit (computeMaxBorderCode eps x y z hasz box) n \<longleftrightarrow>
     (n = 0 \<and> double_sub (xmax box) x < eps) \<or> (n = 1 \<and> double_sub (ymax box) y < eps) \<or>
     (n = 2 \<and> hasz \<and> double_sub (zmax box) z < eps)"
proof -
  have b1: "bit (1::int) n \<longleftrightarrow> n = 0" by (simp add: bit_1_iff)
  have b2: "bit (2::int) n \<longleftrightarrow> n = 1" using bit_exp_iff[of 1 n, where ?'a = int] by auto
  have b4: "bit (4::int) n \<longleftrightarrow> n = 2" using bit_exp_iff[of 2 n, where ?'a = int] by auto
  define cx :: int where "cx = (if double_sub (xmax box) x < eps then XMAX else 0)"
  define cy :: int where "cy = (if double_sub (ymax box) y < eps then YMAX else 0)"
  define cz :: int where "cz = (if hasz \<and> double_sub (zmax box) z < eps then ZMAX else 0)"
  have c: "computeMaxBorderCode eps x y z hasz box = cx OR cy OR cz"
    unfolding computeMaxBorderCode_def Let_def INSIDE_def cx_def cy_def cz_def
    by (simp add: or.assoc)
  have bx: "bit cx n \<longleftrightarrow> (n = 0 \<and> double_sub (xmax box) x < eps)"
    unfolding cx_def XMAX_def using b1 by simp
  have by': "bit cy n \<longleftrightarrow> (n = 1 \<and> double_sub (ymax box) y < eps)"
    unfolding cy_def YMAX_def using b2 by simp
  have bz: "bit cz n \<longleftrightarrow> (n = 2 \<and> hasz \<and> double_sub (zmax box) z < eps)"
    unfolding cz_def ZMAX_def using b4 by simp
  show ?thesis unfolding c bit_or_iff bx by' bz by blast
qed

lemma computeMaxBorderCode_eq0:
  "computeMaxBorderCode eps x y z hasz box = 0 \<longleftrightarrow> clear_of_max_border eps hasz box x y z"
  unfolding int_eq0_bit bit_computeMaxBorderCode clear_of_max_border_def
  by (auto simp: not_less)

lemma computeMaxBorderCode_share:
  "(computeMaxBorderCode eps x1 y1 z1 hasz box AND computeMaxBorderCode eps x2 y2 z2 hasz box) \<noteq> 0
     \<longleftrightarrow> share_max_border eps hasz box x1 y1 z1 x2 y2 z2"
  unfolding and_ne0_iff bit_computeMaxBorderCode share_max_border_def
  by auto

subsection \<open>The segment intersection classifier\<close>















subsection \<open>A segment on which the clipping loop does not return\<close>

text \<open>
  The box from (0.1, 0.1) to (0.5, 0.5), the bounds being the doubles nearest to these
  numbers, and the segment from (0.9, 0.9) to (0, 0). After the first endpoint is
  clipped to (0.5, 0.5), the second endpoint is clipped to the left face, which gives
  a point just below the box, then to the bottom face, which gives a point just left of
  the box, and so on: the two rounds below follow each other for ever.
\<close>

lemma clip_cycle_bounds:
  "binary64 (1 / 10) = 3602879701896397 / 36028797018963968"
  "binary64 (9 / 10) = 8106479329266893 / 9007199254740992"
  by (simp_all add: binary64_eval)

lemma clip_cycle_bottom:
  "clip_intersection
     \<lparr>flag_x = True, flag_z = False, flag_t = False, flag_geodetic = False, box_srid = 0,
      xmin = 3602879701896397 / 36028797018963968, xmax = 1 / 2,
      ymin = 3602879701896397 / 36028797018963968, ymax = 1 / 2, zmin = 0, zmax = 0,
      period = \<lparr>lower = 0, upper = 0, lower_inc = True, upper_inc = True\<rparr>\<rparr>
     False 4 (1 / 2) (1 / 2) 0
     (3602879701896397 / 36028797018963968) (900719925474099 / 9007199254740992) 0 =
   Some (1801439850948197 / 18014398509481984, 3602879701896397 / 36028797018963968, 0)"
  by (simp add: clip_intersection_def clip_coordinate_def binary64_eval
      LEFT_def RIGHT_def BOTTOM_def TOP_def)

lemma clip_cycle_left:
  "clip_intersection
     \<lparr>flag_x = True, flag_z = False, flag_t = False, flag_geodetic = False, box_srid = 0,
      xmin = 3602879701896397 / 36028797018963968, xmax = 1 / 2,
      ymin = 3602879701896397 / 36028797018963968, ymax = 1 / 2, zmin = 0, zmax = 0,
      period = \<lparr>lower = 0, upper = 0, lower_inc = True, upper_inc = True\<rparr>\<rparr>
     False 1 (1 / 2) (1 / 2) 0
     (1801439850948197 / 18014398509481984) (3602879701896397 / 36028797018963968) 0 =
   Some (3602879701896397 / 36028797018963968, 900719925474099 / 9007199254740992, 0)"
  by (simp add: clip_intersection_def clip_coordinate_def binary64_eval
      LEFT_def RIGHT_def BOTTOM_def TOP_def)

lemma clip_cycle_codes:
  "computeCode (1801439850948197 / 18014398509481984) (3602879701896397 / 36028797018963968) 0
     False
     \<lparr>flag_x = True, flag_z = False, flag_t = False, flag_geodetic = False, box_srid = 0,
      xmin = 3602879701896397 / 36028797018963968, xmax = 1 / 2,
      ymin = 3602879701896397 / 36028797018963968, ymax = 1 / 2, zmin = 0, zmax = 0,
      period = \<lparr>lower = 0, upper = 0, lower_inc = True, upper_inc = True\<rparr>\<rparr> = 1"
  "computeCode (3602879701896397 / 36028797018963968) (900719925474099 / 9007199254740992) 0
     False
     \<lparr>flag_x = True, flag_z = False, flag_t = False, flag_geodetic = False, box_srid = 0,
      xmin = 3602879701896397 / 36028797018963968, xmax = 1 / 2,
      ymin = 3602879701896397 / 36028797018963968, ymax = 1 / 2, zmin = 0, zmax = 0,
      period = \<lparr>lower = 0, upper = 0, lower_inc = True, upper_inc = True\<rparr>\<rparr> = 4"
  by (simp_all add: computeCode_def INSIDE_def LEFT_def RIGHT_def BOTTOM_def TOP_def)

text \<open>
  The loop has no result from either of the two states of the cycle: a result would
  come from a shorter run of the loop that starts in the other state.
\<close>

lemma clip_cycle_no_result:
  assumes "cohenSutherlandClip_loop box hasz x1 y1 z1 code1 x2 y2 z2 code2 = Some r"
  shows "\<not> (box =
             \<lparr>flag_x = True, flag_z = False, flag_t = False, flag_geodetic = False, box_srid = 0,
              xmin = 3602879701896397 / 36028797018963968, xmax = 1 / 2,
              ymin = 3602879701896397 / 36028797018963968, ymax = 1 / 2, zmin = 0, zmax = 0,
              period = \<lparr>lower = 0, upper = 0, lower_inc = True, upper_inc = True\<rparr>\<rparr> \<and>
            \<not> hasz \<and> x1 = 1 / 2 \<and> y1 = 1 / 2 \<and> z1 = 0 \<and> code1 = 0 \<and> z2 = 0 \<and>
            ((x2 = 3602879701896397 / 36028797018963968 \<and>
              y2 = 900719925474099 / 9007199254740992 \<and> code2 = 4) \<or>
             (x2 = 1801439850948197 / 18014398509481984 \<and>
              y2 = 3602879701896397 / 36028797018963968 \<and> code2 = 1)))"
  using assms
proof (rule cohenSutherlandClip_loop.raw_induct [rotated])
  fix f :: "STBox \<Rightarrow> bool \<Rightarrow> real \<Rightarrow> real \<Rightarrow> real \<Rightarrow> int \<Rightarrow> real \<Rightarrow> real \<Rightarrow> real \<Rightarrow> int
      \<Rightarrow> (bool \<times> (real \<times> real \<times> real) \<times> (real \<times> real \<times> real)) option"
  fix box hasz x1 y1 z1 code1 x2 y2 z2 code2 r
  let ?B = "\<lparr>flag_x = True, flag_z = False, flag_t = False, flag_geodetic = False, box_srid = 0,
              xmin = 3602879701896397 / 36028797018963968, xmax = 1 / 2,
              ymin = 3602879701896397 / 36028797018963968, ymax = 1 / 2, zmin = 0, zmax = 0,
              period = \<lparr>lower = 0, upper = 0, lower_inc = True, upper_inc = True\<rparr>\<rparr>"
  let ?in_cycle = "\<lambda>box hasz x1 y1 z1 code1 x2 y2 z2 code2.
     box = ?B \<and> \<not> hasz \<and> x1 = 1 / 2 \<and> y1 = 1 / 2 \<and> z1 = 0 \<and> code1 = (0::int) \<and> z2 = 0 \<and>
            ((x2 = 3602879701896397 / 36028797018963968 \<and>
              y2 = 900719925474099 / 9007199254740992 \<and> code2 = (4::int)) \<or>
             (x2 = 1801439850948197 / 18014398509481984 \<and>
              y2 = 3602879701896397 / 36028797018963968 \<and> code2 = 1))"
  assume IH: "\<And>box hasz x1 y1 z1 code1 x2 y2 z2 code2 r.
      f box hasz x1 y1 z1 code1 x2 y2 z2 code2 = Some r \<Longrightarrow>
      \<not> ?in_cycle box hasz x1 y1 z1 code1 x2 y2 z2 code2"
  assume step: "(if (code1 OR code2) = 0 then Some (True, (x1, y1, z1), (x2, y2, z2))
      else if (code1 AND code2) \<noteq> 0 then Some (False, (x1, y1, z1), (x2, y2, z2))
      else
        (let code_out = (if code1 \<noteq> 0 then code1 else code2)
         in case clip_intersection box hasz code_out x1 y1 z1 x2 y2 z2 of
              None \<Rightarrow> None
            | Some (x, y, z) \<Rightarrow>
                if code_out = code1 then
                  (let z1' = (if hasz then z else z1)
                   in f box hasz x y z1' (computeCode x y z1' hasz box) x2 y2 z2 code2)
                else
                  (let z2' = (if hasz then z else z2)
                   in f box hasz x1 y1 z1 code1 x y z2' (computeCode x y z2' hasz box)))) =
      Some r"
  show "\<not> ?in_cycle box hasz x1 y1 z1 code1 x2 y2 z2 code2"
  proof
    assume c: "?in_cycle box hasz x1 y1 z1 code1 x2 y2 z2 code2"
    then consider
      (bottom) "box = ?B" "hasz = False" "x1 = 1 / 2" "y1 = 1 / 2" "z1 = 0" "code1 = 0" "z2 = 0"
        "x2 = 3602879701896397 / 36028797018963968"
        "y2 = 900719925474099 / 9007199254740992" "code2 = 4"
      | (left) "box = ?B" "hasz = False" "x1 = 1 / 2" "y1 = 1 / 2" "z1 = 0" "code1 = 0" "z2 = 0"
        "x2 = 1801439850948197 / 18014398509481984"
        "y2 = 3602879701896397 / 36028797018963968" "code2 = 1"
      by blast
    then show False
    proof cases
      case bottom
      have "f ?B False (1 / 2) (1 / 2) 0 0
              (1801439850948197 / 18014398509481984) (3602879701896397 / 36028797018963968) 0 1 =
            Some r"
        using step unfolding bottom
        by (simp add: clip_cycle_bottom clip_cycle_codes del: STBox.ext_inject)
      from IH [OF this] show False by simp
    next
      case left
      have "f ?B False (1 / 2) (1 / 2) 0 0
              (3602879701896397 / 36028797018963968) (900719925474099 / 9007199254740992) 0 4 =
            Some r"
        using step unfolding left
        by (simp add: clip_cycle_left clip_cycle_codes del: STBox.ext_inject)
      from IH [OF this] show False by simp
    qed
  qed
qed

text \<open>
  C10. On this segment and this box \<^verbatim>\<open>cohenSutherlandClip\<close> does not return, whatever
  \<open>eps\<close> and \<open>border_inc\<close>: the loop reaches the cycle after two rounds.
\<close>

theorem cohenSutherlandClip_no_return:
  "cohenSutherlandClip eps
     \<lparr>gx = binary64 (9 / 10), gy = binary64 (9 / 10), gz = None, gsrid = 0, ggeodetic = False\<rparr>
     \<lparr>gx = 0, gy = 0, gz = None, gsrid = 0, ggeodetic = False\<rparr>
     \<lparr>flag_x = True, flag_z = False, flag_t = False, flag_geodetic = False, box_srid = 0,
      xmin = binary64 (1 / 10), xmax = 1 / 2, ymin = binary64 (1 / 10), ymax = 1 / 2,
      zmin = 0, zmax = 0,
      period = \<lparr>lower = 0, upper = 0, lower_inc = True, upper_inc = True\<rparr>\<rparr>
     False border_inc = None"
proof -
  let ?B = "\<lparr>flag_x = True, flag_z = False, flag_t = False, flag_geodetic = False, box_srid = 0,
              xmin = 3602879701896397 / 36028797018963968, xmax = 1 / 2,
              ymin = 3602879701896397 / 36028797018963968, ymax = 1 / 2, zmin = 0, zmax = 0,
              period = \<lparr>lower = 0, upper = 0, lower_inc = True, upper_inc = True\<rparr>\<rparr>"
  have c1: "computeCode (8106479329266893 / 9007199254740992)
              (8106479329266893 / 9007199254740992) 0 False ?B = 10"
    and c2: "computeCode 0 0 0 False ?B = 5"
    and c3: "computeCode (1 / 2) (1 / 2) 0 False ?B = 0"
    by (simp_all add: computeCode_def INSIDE_def LEFT_def RIGHT_def BOTTOM_def TOP_def)
  have s1: "clip_intersection ?B False 10 (8106479329266893 / 9007199254740992)
              (8106479329266893 / 9007199254740992) 0 0 0 0 = Some (1 / 2, 1 / 2, 0)"
    by (simp add: clip_intersection_def clip_coordinate_def binary64_eval
        LEFT_def RIGHT_def BOTTOM_def TOP_def)
  have s2: "clip_intersection ?B False 5 (1 / 2) (1 / 2) 0 0 0 0 =
      Some (3602879701896397 / 36028797018963968, 900719925474099 / 9007199254740992, 0)"
    by (simp add: clip_intersection_def clip_coordinate_def binary64_eval
        LEFT_def RIGHT_def BOTTOM_def TOP_def)
  have cyc: "cohenSutherlandClip_loop ?B False (1 / 2) (1 / 2) 0 0
      (3602879701896397 / 36028797018963968) (900719925474099 / 9007199254740992) 0 4 = None"
  proof (cases "cohenSutherlandClip_loop ?B False (1 / 2) (1 / 2) 0 0
      (3602879701896397 / 36028797018963968) (900719925474099 / 9007199254740992) 0 4")
    case None
    then show ?thesis .
  next
    case (Some r)
    from clip_cycle_no_result [OF this] show ?thesis by simp
  qed
  have l2: "cohenSutherlandClip_loop ?B False (1 / 2) (1 / 2) 0 0 0 0 0 5 = None"
    by (subst cohenSutherlandClip_loop.simps)
      (simp add: s2 clip_cycle_codes cyc del: STBox.ext_inject)
  have l1: "cohenSutherlandClip_loop ?B False (8106479329266893 / 9007199254740992)
              (8106479329266893 / 9007199254740992) 0 10 0 0 0 5 = None"
    by (subst cohenSutherlandClip_loop.simps)
      (simp add: s1 c3 l2 del: STBox.ext_inject)
  show ?thesis
    unfolding clip_cycle_bounds cohenSutherlandClip_def Let_def
    by (simp add: c1 c2 l1 point3dz_z_def del: STBox.ext_inject)
qed

subsection \<open>Clipping a segment that lies in the box\<close>

lemma computeCode_eq0: "computeCode x y z hasz box = 0 \<longleftrightarrow> inside_box hasz box x y z"
proof -
  define c where "c = computeCode x y z hasz box"
  have b: "\<And>n. bit c n \<longleftrightarrow>
     (n = 0 \<and> x < xmin box) \<or> (n = 1 \<and> \<not> x < xmin box \<and> x > xmax box) \<or>
     (n = 2 \<and> y < ymin box) \<or> (n = 3 \<and> \<not> y < ymin box \<and> y > ymax box) \<or>
     (n = 4 \<and> hasz \<and> z < zmin box) \<or> (n = 5 \<and> hasz \<and> \<not> z < zmin box \<and> z > zmax box)"
    unfolding c_def by (rule bit_computeCode)
  have "c = 0 \<longleftrightarrow> inside_box hasz box x y z"
  proof
    assume "c = 0"
    then have "\<not> bit c 0" "\<not> bit c 1" "\<not> bit c 2" "\<not> bit c 3" "\<not> bit c 4" "\<not> bit c 5"
      by simp_all
    then show "inside_box hasz box x y z"
      unfolding b inside_box_def by (simp add: not_less)
  next
    assume "inside_box hasz box x y z"
    then have "\<And>n. \<not> bit c n" unfolding b inside_box_def by auto
    then show "c = 0" using int_eq0_bit[of c] by blast
  qed
  then show ?thesis unfolding c_def .
qed

lemma loop_inside:
  "cohenSutherlandClip_loop box hasz x1 y1 z1 0 x2 y2 z2 0 = Some (True, (x1, y1, z1), (x2, y2, z2))"
  by (subst cohenSutherlandClip_loop.simps) simp

lemma gspoint_make_same:
  "(gz p \<noteq> None) = hasz \<Longrightarrow> \<not> ggeodetic p \<Longrightarrow>
     gspoint_make (gx p) (gy p) (if hasz then point3dz_z p else 0) hasz False (gsrid p) = p"
  by (cases p) (auto simp: gspoint_make_def point3dz_z_def)

text \<open>
  C7, as amended. For a segment whose two endpoints lie in the closed box (and the
  assertions of the function hold), \<^verbatim>\<open>cohenSutherlandClip\<close> with \<open>border_inc\<close> true
  returns true with the two input points (x, y, and z when \<open>hasz\<close>; the output
  is not geodetic) and writes no
  inclusion flag. With \<open>border_inc\<close> false it returns false when both endpoints are
  within \<open>eps\<close> of one same maximum face; otherwise it returns true with the same
  points, and the inclusion flag of an endpoint is true exactly when the endpoint is at
  least \<open>eps\<close> below every maximum face.
\<close>

theorem cohenSutherlandClip_inside:
  assumes a1: "flag_x box"
    and a2: "hasz \<longrightarrow> flag_z box \<and> gz p1 \<noteq> None \<and> gz p2 \<noteq> None"
    and a3: "gsrid p1 = gsrid p2"
    and z1: "z1 = (if hasz then point3dz_z p1 else 0)"
    and z2: "z2 = (if hasz then point3dz_z p2 else 0)"
    and in1: "inside_box hasz box (gx p1) (gy p1) z1"
    and in2: "inside_box hasz box (gx p2) (gy p2) z2"
  shows "cohenSutherlandClip eps p1 p2 box hasz True =
           Some (Inr \<lparr>clip_found = True,
                      clip_p3 = Some (gspoint_make (gx p1) (gy p1) z1 hasz False (gsrid p1)),
                      clip_p4 = Some (gspoint_make (gx p2) (gy p2) z2 hasz False (gsrid p1)),
                      clip_p3_inc = None, clip_p4_inc = None\<rparr>) \<and>
         cohenSutherlandClip eps p1 p2 box hasz False =
           Some (Inr (if share_max_border eps hasz box (gx p1) (gy p1) z1 (gx p2) (gy p2) z2
                      then \<lparr>clip_found = False, clip_p3 = None, clip_p4 = None,
                             clip_p3_inc = None, clip_p4_inc = None\<rparr>
                      else \<lparr>clip_found = True,
                             clip_p3 = Some (gspoint_make (gx p1) (gy p1) z1 hasz False (gsrid p1)),
                             clip_p4 = Some (gspoint_make (gx p2) (gy p2) z2 hasz False (gsrid p1)),
                             clip_p3_inc = Some (clear_of_max_border eps hasz box (gx p1) (gy p1) z1),
                             clip_p4_inc = Some (clear_of_max_border eps hasz box (gx p2) (gy p2) z2)\<rparr>)) \<and>
         ((gz p1 \<noteq> None) = hasz \<and> \<not> ggeodetic p1 \<longrightarrow> gspoint_make (gx p1) (gy p1) z1 hasz False (gsrid p1) = p1) \<and>
         ((gz p2 \<noteq> None) = hasz \<and> \<not> ggeodetic p2 \<longrightarrow> gspoint_make (gx p2) (gy p2) z2 hasz False (gsrid p1) = p2)"
proof -
  have c1: "computeCode (gx p1) (gy p1) (if hasz then point3dz_z p1 else 0) hasz box = 0"
    using in1 unfolding z1 computeCode_eq0 .
  have c2: "computeCode (gx p2) (gy p2) (if hasz then point3dz_z p2 else 0) hasz box = 0"
    using in2 unfolding z2 computeCode_eq0 .
  have pre: "\<not> (hasz \<and> \<not> (flag_z box \<and> gz p1 \<noteq> None \<and> gz p2 \<noteq> None))" using a2 by blast
  have A: "cohenSutherlandClip eps p1 p2 box hasz True =
           Some (Inr \<lparr>clip_found = True,
                      clip_p3 = Some (gspoint_make (gx p1) (gy p1) z1 hasz False (gsrid p1)),
                      clip_p4 = Some (gspoint_make (gx p2) (gy p2) z2 hasz False (gsrid p1)),
                      clip_p3_inc = None, clip_p4_inc = None\<rparr>)"
    unfolding cohenSutherlandClip_def Let_def c1 c2 loop_inside z1 z2
    using a1 pre a3 by simp
  have B: "cohenSutherlandClip eps p1 p2 box hasz False =
           Some (Inr (if share_max_border eps hasz box (gx p1) (gy p1) z1 (gx p2) (gy p2) z2
                      then \<lparr>clip_found = False, clip_p3 = None, clip_p4 = None,
                             clip_p3_inc = None, clip_p4_inc = None\<rparr>
                      else \<lparr>clip_found = True,
                             clip_p3 = Some (gspoint_make (gx p1) (gy p1) z1 hasz False (gsrid p1)),
                             clip_p4 = Some (gspoint_make (gx p2) (gy p2) z2 hasz False (gsrid p1)),
                             clip_p3_inc = Some (clear_of_max_border eps hasz box (gx p1) (gy p1) z1),
                             clip_p4_inc = Some (clear_of_max_border eps hasz box (gx p2) (gy p2) z2)\<rparr>))"
    unfolding cohenSutherlandClip_def Let_def c1 c2 loop_inside z1 z2
      computeMaxBorderCode_share computeMaxBorderCode_eq0
    using a1 pre a3 by simp
  have C: "(gz p1 \<noteq> None) = hasz \<and> \<not> ggeodetic p1 \<longrightarrow> gspoint_make (gx p1) (gy p1) z1 hasz False (gsrid p1) = p1"
    unfolding z1 using gspoint_make_same by blast
  have D: "(gz p2 \<noteq> None) = hasz \<and> \<not> ggeodetic p2 \<longrightarrow> gspoint_make (gx p2) (gy p2) z2 hasz False (gsrid p1) = p2"
    unfolding z2 a3 using gspoint_make_same by blast
  show ?thesis using A B C D by blast
qed

theorem cohenSutherlandClip_inside_witness:
  "cohenSutherlandClip (1 / 1000000)
      \<lparr>gx = 2, gy = 2, gz = None, gsrid = 0, ggeodetic = False\<rparr> \<lparr>gx = 8, gy = 8, gz = None, gsrid = 0, ggeodetic = False\<rparr>
      \<lparr>flag_x = True, flag_z = False, flag_t = False, flag_geodetic = False, box_srid = 0,
        xmin = 0, xmax = 10, ymin = 0, ymax = 10, zmin = 0, zmax = 0,
        period = \<lparr>lower = 0, upper = 0, lower_inc = True, upper_inc = True\<rparr>\<rparr>
      False True =
     Some (Inr \<lparr>clip_found = True,
                clip_p3 = Some \<lparr>gx = 2, gy = 2, gz = None, gsrid = 0, ggeodetic = False\<rparr>,
                clip_p4 = Some \<lparr>gx = 8, gy = 8, gz = None, gsrid = 0, ggeodetic = False\<rparr>,
                clip_p3_inc = None, clip_p4_inc = None\<rparr>) \<and>
   cohenSutherlandClip (1 / 1000000)
      \<lparr>gx = 2, gy = 2, gz = None, gsrid = 0, ggeodetic = False\<rparr> \<lparr>gx = 8, gy = 8, gz = None, gsrid = 0, ggeodetic = False\<rparr>
      \<lparr>flag_x = True, flag_z = False, flag_t = False, flag_geodetic = False, box_srid = 0,
        xmin = 0, xmax = 10, ymin = 0, ymax = 10, zmin = 0, zmax = 0,
        period = \<lparr>lower = 0, upper = 0, lower_inc = True, upper_inc = True\<rparr>\<rparr>
      False False =
     Some (Inr \<lparr>clip_found = True,
                clip_p3 = Some \<lparr>gx = 2, gy = 2, gz = None, gsrid = 0, ggeodetic = False\<rparr>,
                clip_p4 = Some \<lparr>gx = 8, gy = 8, gz = None, gsrid = 0, ggeodetic = False\<rparr>,
                clip_p3_inc = Some True, clip_p4_inc = Some True\<rparr>)"
  using cohenSutherlandClip_inside[where box =
      "\<lparr>flag_x = True, flag_z = False, flag_t = False, flag_geodetic = False, box_srid = 0,
        xmin = 0, xmax = 10, ymin = 0, ymax = 10, zmin = 0, zmax = 0,
        period = \<lparr>lower = 0, upper = 0, lower_inc = True, upper_inc = True\<rparr>\<rparr>"
      and hasz = False and ?p1.0 = "\<lparr>gx = 2, gy = 2, gz = None, gsrid = 0, ggeodetic = False\<rparr>"
      and ?p2.0 = "\<lparr>gx = 8, gy = 8, gz = None, gsrid = 0, ggeodetic = False\<rparr>"
      and ?z1.0 = 0 and ?z2.0 = 0 and eps = "1 / 1000000"]
  by (simp add: inside_box_def share_max_border_def clear_of_max_border_def gspoint_make_def
      binary64_eval)

text \<open>
  C7 as stated fails. With \<open>eps\<close> one millionth and the box from (0,0) to (10,10), the
  segment from (9.9999999, 2) to (9.9999999, 8) lies strictly inside the box and the
  clip with \<open>border_inc\<close> false rejects it: both endpoints are within \<open>eps\<close> of the
  face x = 10. With \<open>border_inc\<close> true the segment from (2,2) to (8,8) is returned
  with no inclusion flag written.
\<close>

theorem cohenSutherlandClip_inside_counterexample:
  "(0::real) < 99999999 / 10000000 \<and> (99999999 / 10000000 :: real) < 10 \<and>
   cohenSutherlandClip (1 / 1000000)
      \<lparr>gx = 99999999 / 10000000, gy = 2, gz = None, gsrid = 0, ggeodetic = False\<rparr>
      \<lparr>gx = 99999999 / 10000000, gy = 8, gz = None, gsrid = 0, ggeodetic = False\<rparr>
      \<lparr>flag_x = True, flag_z = False, flag_t = False, flag_geodetic = False, box_srid = 0,
        xmin = 0, xmax = 10, ymin = 0, ymax = 10, zmin = 0, zmax = 0,
        period = \<lparr>lower = 0, upper = 0, lower_inc = True, upper_inc = True\<rparr>\<rparr>
      False False =
     Some (Inr \<lparr>clip_found = False, clip_p3 = None, clip_p4 = None,
                clip_p3_inc = None, clip_p4_inc = None\<rparr>) \<and>
   cohenSutherlandClip (1 / 1000000)
      \<lparr>gx = 2, gy = 2, gz = None, gsrid = 0, ggeodetic = False\<rparr> \<lparr>gx = 8, gy = 8, gz = None, gsrid = 0, ggeodetic = False\<rparr>
      \<lparr>flag_x = True, flag_z = False, flag_t = False, flag_geodetic = False, box_srid = 0,
        xmin = 0, xmax = 10, ymin = 0, ymax = 10, zmin = 0, zmax = 0,
        period = \<lparr>lower = 0, upper = 0, lower_inc = True, upper_inc = True\<rparr>\<rparr>
      False True =
     Some (Inr \<lparr>clip_found = True,
                clip_p3 = Some \<lparr>gx = 2, gy = 2, gz = None, gsrid = 0, ggeodetic = False\<rparr>,
                clip_p4 = Some \<lparr>gx = 8, gy = 8, gz = None, gsrid = 0, ggeodetic = False\<rparr>,
                clip_p3_inc = None, clip_p4_inc = None\<rparr>)"
proof -
  let ?B = "\<lparr>flag_x = True, flag_z = False, flag_t = False, flag_geodetic = False, box_srid = 0,
        xmin = 0, xmax = 10, ymin = 0, ymax = 10, zmin = 0, zmax = 0,
        period = \<lparr>lower = 0, upper = 0, lower_inc = True, upper_inc = True\<rparr>\<rparr>"
  have c: "computeCode (99999999 / 10000000) 2 0 False ?B = 0"
    "computeCode (99999999 / 10000000) 8 0 False ?B = 0"
    "computeCode 2 2 0 False ?B = 0" "computeCode 8 8 0 False ?B = 0"
    by (simp_all add: computeCode_def INSIDE_def LEFT_def RIGHT_def BOTTOM_def TOP_def)
  have d: "double_sub 10 (99999999 / 10000000) < 1 / 1000000"
    "\<not> double_sub 10 2 < 1 / 1000000" "\<not> double_sub 10 8 < 1 / 1000000"
    by (simp_all add: binary64_eval)
  have m: "computeMaxBorderCode (1 / 1000000) (99999999 / 10000000) 2 0 False ?B = 1"
    "computeMaxBorderCode (1 / 1000000) (99999999 / 10000000) 8 0 False ?B = 1"
    using d by (simp_all add: computeMaxBorderCode_def INSIDE_def XMAX_def YMAX_def ZMAX_def)
  have A: "cohenSutherlandClip (1 / 1000000)
      \<lparr>gx = 99999999 / 10000000, gy = 2, gz = None, gsrid = 0, ggeodetic = False\<rparr>
      \<lparr>gx = 99999999 / 10000000, gy = 8, gz = None, gsrid = 0, ggeodetic = False\<rparr>
      ?B False False =
     Some (Inr \<lparr>clip_found = False, clip_p3 = None, clip_p4 = None,
                clip_p3_inc = None, clip_p4_inc = None\<rparr>)"
    unfolding cohenSutherlandClip_def Let_def
    by (simp add: c loop_inside m del: STBox.ext_inject)
  have B: "cohenSutherlandClip (1 / 1000000)
      \<lparr>gx = 2, gy = 2, gz = None, gsrid = 0, ggeodetic = False\<rparr>
      \<lparr>gx = 8, gy = 8, gz = None, gsrid = 0, ggeodetic = False\<rparr>
      ?B False True =
     Some (Inr \<lparr>clip_found = True,
                clip_p3 = Some \<lparr>gx = 2, gy = 2, gz = None, gsrid = 0, ggeodetic = False\<rparr>,
                clip_p4 = Some \<lparr>gx = 8, gy = 8, gz = None, gsrid = 0, ggeodetic = False\<rparr>,
                clip_p3_inc = None, clip_p4_inc = None\<rparr>)"
    unfolding cohenSutherlandClip_def Let_def
    by (simp add: c loop_inside gspoint_make_def del: STBox.ext_inject)
  show ?thesis using A B by simp
qed

subsection \<open>Border semantics of the instant primitive\<close>

lemma tpointinst_restrict_stbox_iter_at:
  assumes t: "box_time_ok inst box"
    and h: "hasz = (inst_has_z inst \<and> flag_z box)"
    and x: "x = gx (tinstant_value inst)" and y: "y = gy (tinstant_value inst)"
    and z: "z = (if hasz then point3dz_z (tinstant_value inst) else 0)"
  shows "tpointinst_restrict_stbox_iter eps inst box border_inc True \<longleftrightarrow>
           inside_box hasz box x y z \<and> (border_inc \<or> clear_of_max_border eps hasz box x y z)"
proof -
  have tt: "\<not> (flag_t box \<and> \<not> contains_span_value (period box) (tinstant_t inst))"
    using t unfolding box_time_ok_def by blast
  have "tpointinst_restrict_stbox_iter eps inst box border_inc True \<longleftrightarrow>
          (computeCode x y z hasz box OR
            (if \<not> border_inc then computeMaxBorderCode eps x y z hasz box else 0)) = 0"
    unfolding tpointinst_restrict_stbox_iter_def Let_def h[symmetric] x[symmetric] y[symmetric]
      z[symmetric]
    using tt by simp
  also have "\<dots> \<longleftrightarrow> inside_box hasz box x y z \<and> (border_inc \<or> clear_of_max_border eps hasz box x y z)"
    unfolding or_eq0_iff computeCode_eq0
    by (cases border_inc) (simp_all add: computeMaxBorderCode_eq0)
  finally show ?thesis .
qed

text \<open>
  C6, as amended. For an instant whose timestamp passes the test on the T dimension of
  the box: a point exactly on a maximum edge (its other coordinates strictly inside) is
  inside with \<open>border_inc\<close> true and outside with \<open>border_inc\<close> false; a point exactly
  on a minimum edge (its other coordinates strictly inside) is inside with \<open>border_inc\<close>
  true, and with \<open>border_inc\<close> false it is inside exactly when each of its coordinates
  is at least \<open>eps\<close> below the maximum of the box on that axis.
\<close>

theorem tpointinst_restrict_stbox_iter_border:
  assumes eps: "0 < eps" and t: "box_time_ok inst box"
    and h: "hasz = (inst_has_z inst \<and> flag_z box)"
    and x: "x = gx (tinstant_value inst)" and y: "y = gy (tinstant_value inst)"
    and z: "z = (if hasz then point3dz_z (tinstant_value inst) else 0)"
  shows "(on_max_edge hasz box x y z \<longrightarrow>
            tpointinst_restrict_stbox_iter eps inst box True True \<and>
            \<not> tpointinst_restrict_stbox_iter eps inst box False True) \<and>
         (on_min_edge hasz box x y z \<longrightarrow>
            tpointinst_restrict_stbox_iter eps inst box True True \<and>
            (tpointinst_restrict_stbox_iter eps inst box False True \<longleftrightarrow>
               clear_of_max_border eps hasz box x y z))"
proof (intro conjI impI)
  assume m: "on_max_edge hasz box x y z"
  have i: "inside_box hasz box x y z"
    using m unfolding on_max_edge_def inside_box_def by auto
  have c: "\<not> clear_of_max_border eps hasz box x y z"
    using m eps unfolding on_max_edge_def clear_of_max_border_def
    by (auto simp: double_sub_self)
  show "tpointinst_restrict_stbox_iter eps inst box True True"
    unfolding tpointinst_restrict_stbox_iter_at[OF t h x y z] using i by simp
  show "\<not> tpointinst_restrict_stbox_iter eps inst box False True"
    unfolding tpointinst_restrict_stbox_iter_at[OF t h x y z] using c by simp
next
  assume m: "on_min_edge hasz box x y z"
  have i: "inside_box hasz box x y z"
    using m unfolding on_min_edge_def inside_box_def by auto
  show "tpointinst_restrict_stbox_iter eps inst box True True"
    unfolding tpointinst_restrict_stbox_iter_at[OF t h x y z] using i by simp
  show "tpointinst_restrict_stbox_iter eps inst box False True \<longleftrightarrow>
          clear_of_max_border eps hasz box x y z"
    unfolding tpointinst_restrict_stbox_iter_at[OF t h x y z] using i by simp
qed

theorem tpointinst_restrict_stbox_iter_border_witness:
  "tpointinst_restrict_stbox_iter (1 / 1000000)
      \<lparr>tinstant_value = \<lparr>gx = 10, gy = 5, gz = None, gsrid = 0, ggeodetic = False\<rparr>, tinstant_t = 0\<rparr>
      \<lparr>flag_x = True, flag_z = False, flag_t = False, flag_geodetic = False, box_srid = 0,
        xmin = 0, xmax = 10, ymin = 0, ymax = 10, zmin = 0, zmax = 0,
        period = \<lparr>lower = 0, upper = 0, lower_inc = True, upper_inc = True\<rparr>\<rparr> True True \<and>
   \<not> tpointinst_restrict_stbox_iter (1 / 1000000)
      \<lparr>tinstant_value = \<lparr>gx = 10, gy = 5, gz = None, gsrid = 0, ggeodetic = False\<rparr>, tinstant_t = 0\<rparr>
      \<lparr>flag_x = True, flag_z = False, flag_t = False, flag_geodetic = False, box_srid = 0,
        xmin = 0, xmax = 10, ymin = 0, ymax = 10, zmin = 0, zmax = 0,
        period = \<lparr>lower = 0, upper = 0, lower_inc = True, upper_inc = True\<rparr>\<rparr> False True \<and>
   tpointinst_restrict_stbox_iter (1 / 1000000)
      \<lparr>tinstant_value = \<lparr>gx = 0, gy = 5, gz = None, gsrid = 0, ggeodetic = False\<rparr>, tinstant_t = 0\<rparr>
      \<lparr>flag_x = True, flag_z = False, flag_t = False, flag_geodetic = False, box_srid = 0,
        xmin = 0, xmax = 10, ymin = 0, ymax = 10, zmin = 0, zmax = 0,
        period = \<lparr>lower = 0, upper = 0, lower_inc = True, upper_inc = True\<rparr>\<rparr> True True \<and>
   tpointinst_restrict_stbox_iter (1 / 1000000)
      \<lparr>tinstant_value = \<lparr>gx = 0, gy = 5, gz = None, gsrid = 0, ggeodetic = False\<rparr>, tinstant_t = 0\<rparr>
      \<lparr>flag_x = True, flag_z = False, flag_t = False, flag_geodetic = False, box_srid = 0,
        xmin = 0, xmax = 10, ymin = 0, ymax = 10, zmin = 0, zmax = 0,
        period = \<lparr>lower = 0, upper = 0, lower_inc = True, upper_inc = True\<rparr>\<rparr> False True"
proof -
  let ?box = "\<lparr>flag_x = True, flag_z = False, flag_t = False, flag_geodetic = False, box_srid = 0,
        xmin = 0, xmax = 10, ymin = 0, ymax = 10, zmin = 0, zmax = 0,
        period = \<lparr>lower = 0, upper = 0, lower_inc = True, upper_inc = True\<rparr>\<rparr>"
  let ?imax = "\<lparr>tinstant_value = \<lparr>gx = 10, gy = 5, gz = None, gsrid = 0, ggeodetic = False\<rparr>, tinstant_t = 0\<rparr>"
  let ?imin = "\<lparr>tinstant_value = \<lparr>gx = 0, gy = 5, gz = None, gsrid = 0, ggeodetic = False\<rparr>, tinstant_t = 0\<rparr>"
  have e: "(0::real) < 1 / 1000000" by simp
  have t1: "box_time_ok ?imax ?box" and t2: "box_time_ok ?imin ?box"
    by (simp_all add: box_time_ok_def)
  have h1: "False = (inst_has_z ?imax \<and> flag_z ?box)" and h2: "False = (inst_has_z ?imin \<and> flag_z ?box)"
    by simp_all
  have m: "on_max_edge False ?box 10 5 0" by (simp add: on_max_edge_def)
  have n: "on_min_edge False ?box 0 5 0" by (simp add: on_min_edge_def)
  have c: "clear_of_max_border (1 / 1000000) False ?box 0 5 0"
    by (simp add: clear_of_max_border_def binary64_eval)
  have A: "tpointinst_restrict_stbox_iter (1 / 1000000) ?imax ?box True True \<and>
           \<not> tpointinst_restrict_stbox_iter (1 / 1000000) ?imax ?box False True"
    using tpointinst_restrict_stbox_iter_border[OF e t1 h1, of 10 5 0] m by simp
  have B: "tpointinst_restrict_stbox_iter (1 / 1000000) ?imin ?box True True \<and>
           tpointinst_restrict_stbox_iter (1 / 1000000) ?imin ?box False True"
    using tpointinst_restrict_stbox_iter_border[OF e t2 h2, of 0 5 0] n c by simp
  show ?thesis using A B by blast
qed

text \<open>
  C6 as stated fails. With \<open>eps\<close> one millionth and the box from (0,0) to (10,10), the
  point (0, 9.9999999) lies exactly on the minimum edge x = 0 with its other coordinate
  strictly inside, and with \<open>border_inc\<close> false it is outside.
\<close>

theorem tpointinst_restrict_stbox_iter_border_counterexample:
  "on_min_edge False
      \<lparr>flag_x = True, flag_z = False, flag_t = False, flag_geodetic = False, box_srid = 0,
        xmin = 0, xmax = 10, ymin = 0, ymax = 10, zmin = 0, zmax = 0,
        period = \<lparr>lower = 0, upper = 0, lower_inc = True, upper_inc = True\<rparr>\<rparr>
      0 (99999999 / 10000000) 0 \<and>
   \<not> tpointinst_restrict_stbox_iter (1 / 1000000)
      \<lparr>tinstant_value = \<lparr>gx = 0, gy = 99999999 / 10000000, gz = None, gsrid = 0, ggeodetic = False\<rparr>,
        tinstant_t = 0\<rparr>
      \<lparr>flag_x = True, flag_z = False, flag_t = False, flag_geodetic = False, box_srid = 0,
        xmin = 0, xmax = 10, ymin = 0, ymax = 10, zmin = 0, zmax = 0,
        period = \<lparr>lower = 0, upper = 0, lower_inc = True, upper_inc = True\<rparr>\<rparr> False True"
proof -
  let ?B = "\<lparr>flag_x = True, flag_z = False, flag_t = False, flag_geodetic = False, box_srid = 0,
        xmin = 0, xmax = 10, ymin = 0, ymax = 10, zmin = 0, zmax = 0,
        period = \<lparr>lower = 0, upper = 0, lower_inc = True, upper_inc = True\<rparr>\<rparr>"
  have e: "on_min_edge False ?B 0 (99999999 / 10000000) 0"
    by (simp add: on_min_edge_def)
  have c: "computeCode 0 (99999999 / 10000000) 0 False ?B = 0"
    by (simp add: computeCode_def INSIDE_def LEFT_def RIGHT_def BOTTOM_def TOP_def)
  have d: "\<not> double_sub 10 0 < 1 / 1000000" "double_sub 10 (99999999 / 10000000) < 1 / 1000000"
    by (simp_all add: binary64_eval)
  have m: "computeMaxBorderCode (1 / 1000000) 0 (99999999 / 10000000) 0 False ?B = 2"
    using d by (simp add: computeMaxBorderCode_def INSIDE_def XMAX_def YMAX_def ZMAX_def)
  have r: "\<not> tpointinst_restrict_stbox_iter (1 / 1000000)
      \<lparr>tinstant_value = \<lparr>gx = 0, gy = 99999999 / 10000000, gz = None, gsrid = 0, ggeodetic = False\<rparr>,
        tinstant_t = 0\<rparr> ?B False True"
    unfolding tpointinst_restrict_stbox_iter_def Let_def
    by (simp add: inst_has_z_def c m del: STBox.ext_inject)
  show ?thesis using e r by simp
qed

subsection \<open>Simple fragments\<close>

text \<open>
  C2 at a failing input. The step sequence with the values (0,0), (1,1), (0,0) at the
  timestamps 1, 2, 3 revisits its first value, and \<^verbatim>\<open>tpointseq_make_simple\<close> splits it at
  the third instant. The first fragment ends with a copy of the value (1,1) at the
  timestamp 3 (step interpolation, exclusive upper bound), and \<^verbatim>\<open>tpointseq_is_simple\<close>,
  which compares the values of a step sequence as it does those of a discrete one,
  answers false for it.
\<close>

theorem tpointseq_make_simple_step_fragment:
  "tpointseq_make_simple (1 / 1000000) (1 / 1000000000000)
     \<lparr>seq_instants =
        [\<lparr>tinstant_value = \<lparr>gx = 0, gy = 0, gz = None, gsrid = 0, ggeodetic = False\<rparr>, tinstant_t = 1\<rparr>,
         \<lparr>tinstant_value = \<lparr>gx = 1, gy = 1, gz = None, gsrid = 0, ggeodetic = False\<rparr>, tinstant_t = 2\<rparr>,
         \<lparr>tinstant_value = \<lparr>gx = 0, gy = 0, gz = None, gsrid = 0, ggeodetic = False\<rparr>, tinstant_t = 3\<rparr>],
       seq_period = \<lparr>lower = 1, upper = 3, lower_inc = True, upper_inc = True\<rparr>,
       seq_interp = STEP\<rparr>
   = [\<lparr>seq_instants =
        [\<lparr>tinstant_value = \<lparr>gx = 0, gy = 0, gz = None, gsrid = 0, ggeodetic = False\<rparr>, tinstant_t = 1\<rparr>,
         \<lparr>tinstant_value = \<lparr>gx = 1, gy = 1, gz = None, gsrid = 0, ggeodetic = False\<rparr>, tinstant_t = 2\<rparr>,
         \<lparr>tinstant_value = \<lparr>gx = 1, gy = 1, gz = None, gsrid = 0, ggeodetic = False\<rparr>, tinstant_t = 3\<rparr>],
       seq_period = \<lparr>lower = 1, upper = 3, lower_inc = True, upper_inc = False\<rparr>,
       seq_interp = STEP\<rparr>,
      \<lparr>seq_instants =
        [\<lparr>tinstant_value = \<lparr>gx = 0, gy = 0, gz = None, gsrid = 0, ggeodetic = False\<rparr>, tinstant_t = 3\<rparr>],
       seq_period = \<lparr>lower = 3, upper = 3, lower_inc = True, upper_inc = True\<rparr>,
       seq_interp = INTERP_NONE\<rparr>] \<and>
   \<not> tpointseq_is_simple (1 / 1000000) (1 / 1000000000000)
     \<lparr>seq_instants =
        [\<lparr>tinstant_value = \<lparr>gx = 0, gy = 0, gz = None, gsrid = 0, ggeodetic = False\<rparr>, tinstant_t = 1\<rparr>,
         \<lparr>tinstant_value = \<lparr>gx = 1, gy = 1, gz = None, gsrid = 0, ggeodetic = False\<rparr>, tinstant_t = 2\<rparr>,
         \<lparr>tinstant_value = \<lparr>gx = 1, gy = 1, gz = None, gsrid = 0, ggeodetic = False\<rparr>, tinstant_t = 3\<rparr>],
       seq_period = \<lparr>lower = 1, upper = 3, lower_inc = True, upper_inc = False\<rparr>,
       seq_interp = STEP\<rparr>"
  by code_simp

text \<open>
  C9 at a failing input. The step sequence of the two instants (0,0) at 1 and (0,0) at 2
  with an exclusive upper bound is returned by \<^verbatim>\<open>tpointseq_make_simple\<close> as one fragment,
  a copy of itself, and \<^verbatim>\<open>tpointseq_is_simple\<close> answers false for it.
\<close>

theorem tpointseq_is_simple_step_two_instants:
  "tpointseq_make_simple (1 / 1000000) (1 / 1000000000000)
     \<lparr>seq_instants =
        [\<lparr>tinstant_value = \<lparr>gx = 0, gy = 0, gz = None, gsrid = 0, ggeodetic = False\<rparr>, tinstant_t = 1\<rparr>,
         \<lparr>tinstant_value = \<lparr>gx = 0, gy = 0, gz = None, gsrid = 0, ggeodetic = False\<rparr>, tinstant_t = 2\<rparr>],
       seq_period = \<lparr>lower = 1, upper = 2, lower_inc = True, upper_inc = False\<rparr>,
       seq_interp = STEP\<rparr>
   = [\<lparr>seq_instants =
        [\<lparr>tinstant_value = \<lparr>gx = 0, gy = 0, gz = None, gsrid = 0, ggeodetic = False\<rparr>, tinstant_t = 1\<rparr>,
         \<lparr>tinstant_value = \<lparr>gx = 0, gy = 0, gz = None, gsrid = 0, ggeodetic = False\<rparr>, tinstant_t = 2\<rparr>],
       seq_period = \<lparr>lower = 1, upper = 2, lower_inc = True, upper_inc = False\<rparr>,
       seq_interp = STEP\<rparr>] \<and>
   \<not> tpointseq_is_simple (1 / 1000000) (1 / 1000000000000)
     \<lparr>seq_instants =
        [\<lparr>tinstant_value = \<lparr>gx = 0, gy = 0, gz = None, gsrid = 0, ggeodetic = False\<rparr>, tinstant_t = 1\<rparr>,
         \<lparr>tinstant_value = \<lparr>gx = 0, gy = 0, gz = None, gsrid = 0, ggeodetic = False\<rparr>, tinstant_t = 2\<rparr>],
       seq_period = \<lparr>lower = 1, upper = 2, lower_inc = True, upper_inc = False\<rparr>,
       seq_interp = STEP\<rparr>"
  by code_simp

subsection \<open>The instance of the collaborators\<close>

lemma example_collaborators_fields:
  "geom_intersects2d example_collaborators p gs = list_ex (same_xy p) gs"
  "gserialized_is_empty example_collaborators gs = (gs = [])"
  "gserialized_get_srid example_collaborators gs = (case gs of [] \<Rightarrow> 0 | q # _ \<Rightarrow> gsrid q)"
  "gserialized_has_z example_collaborators gs =
     (case gs of [] \<Rightarrow> False | q # _ \<Rightarrow> gz q \<noteq> None)"
  "geo_set_stbox example_collaborators gs = points_stbox gs None"
  "temporal_set_bbox example_collaborators temp =
     points_stbox (map tinstant_value (temporal_instants temp)) (Some (temporal_period temp))"
  "overlaps_stbox_stbox example_collaborators = example_overlaps_stbox_stbox"
  by (simp_all add: example_collaborators_def)

subsection \<open>Restriction of a step sequence to a geometry\<close>

text \<open>
  C8. A step sequence that holds the value \<open>V1\<close> from \<open>t1\<close> and the value \<open>V2\<close> from \<open>t2\<close>
  to \<open>t3\<close> is restricted \<open>at\<close> a geometry that the point \<open>V1\<close> intersects and the point \<open>V2\<close>
  does not, with no Z span and no period. The result is the one sequence that holds
  \<open>V1\<close> from \<open>t1\<close> (with the lower bound of the input) to \<open>t2\<close> excluded: the passing value is
  continued until the timestamp of the failing instant.
\<close>

theorem tpointseq_step_restrict_geom_time_scenario:
  assumes "geom_intersects2d ext V1 gs"
    and "\<not> geom_intersects2d ext V2 gs"
  shows "tpointseq_step_restrict_geom_time ext
           (tsequence_make [tinstant_make V1 t1, tinstant_make V2 t2, tinstant_make V2 t3]
              lower_inc1 upper_inc1 STEP)
           gs None None True =
         Inr (Some \<lparr>ss_sequences =
                [tsequence_make [tinstant_make V1 t1, tinstant_make V1 t2]
                   lower_inc1 False STEP]\<rparr>)"
  using assms
  by (simp add: tpointseq_step_restrict_geom_time_def step_restrict_def
      tpointseq_step_at_geom_time_iter_def step_at_iter_def step_close_run_def
      tpointinst_restrict_geom_time_iter_def tsequence_make_def tinstant_make_def
      bind_error_def tsequenceset_make_free_def Let_def)

theorem tpointseq_step_restrict_geom_time_scenario_witness:
  "geom_intersects2d example_collaborators
     \<lparr>gx = 0, gy = 0, gz = None, gsrid = 0, ggeodetic = False\<rparr>
     [\<lparr>gx = 0, gy = 0, gz = None, gsrid = 0, ggeodetic = False\<rparr>] \<and>
   \<not> geom_intersects2d example_collaborators
     \<lparr>gx = 5, gy = 5, gz = None, gsrid = 0, ggeodetic = False\<rparr>
     [\<lparr>gx = 0, gy = 0, gz = None, gsrid = 0, ggeodetic = False\<rparr>] \<and>
   tpointseq_step_restrict_geom_time example_collaborators
     (tsequence_make
        [tinstant_make \<lparr>gx = 0, gy = 0, gz = None, gsrid = 0, ggeodetic = False\<rparr> 1,
         tinstant_make \<lparr>gx = 5, gy = 5, gz = None, gsrid = 0, ggeodetic = False\<rparr> 2,
         tinstant_make \<lparr>gx = 5, gy = 5, gz = None, gsrid = 0, ggeodetic = False\<rparr> 3]
        True False STEP)
     [\<lparr>gx = 0, gy = 0, gz = None, gsrid = 0, ggeodetic = False\<rparr>] None None True =
   Inr (Some \<lparr>ss_sequences =
          [tsequence_make
             [tinstant_make \<lparr>gx = 0, gy = 0, gz = None, gsrid = 0, ggeodetic = False\<rparr> 1,
              tinstant_make \<lparr>gx = 0, gy = 0, gz = None, gsrid = 0, ggeodetic = False\<rparr> 2]
             True False STEP]\<rparr>)"
  using tpointseq_step_restrict_geom_time_scenario
    [where ext = example_collaborators
       and ?V1.0 = "\<lparr>gx = 0, gy = 0, gz = None, gsrid = 0, ggeodetic = False\<rparr>"
       and ?V2.0 = "\<lparr>gx = 5, gy = 5, gz = None, gsrid = 0, ggeodetic = False\<rparr>"
       and gs = "[\<lparr>gx = 0, gy = 0, gz = None, gsrid = 0, ggeodetic = False\<rparr>]"
       and ?t1.0 = 1 and ?t2.0 = 2 and ?t3.0 = 3
       and ?lower_inc1.0 = True and ?upper_inc1.0 = False]
  by (simp add: example_collaborators_fields same_xy_def)

subsection \<open>The entry points\<close>

text \<open>
  C3. With an empty geometry the entry point of the restriction to a geometry raises no
  error: it returns no result for \<open>at\<close> and a copy of the temporal point for \<open>minus\<close>, whatever
  the SRID and the dimensions of the arguments, before any test on them and before any
  bounding box is computed.
\<close>

theorem tpoint_restrict_geom_time_empty:
  assumes "gserialized_is_empty ext gs"
  shows "tpoint_restrict_geom_time ext eps tol temp gs zspan period1 atfunc =
         Inr (if atfunc then None else Some temp)"
  using assms by (simp add: tpoint_restrict_geom_time_def temporal_copy_def)

theorem tpoint_restrict_geom_time_empty_witness:
  "gserialized_is_empty example_collaborators [] \<and>
   tpoint_restrict_geom_time example_collaborators (1 / 1000000) 0
     (TINSTANT (tinstant_make \<lparr>gx = 0, gy = 0, gz = None, gsrid = 0, ggeodetic = False\<rparr> 1))
     [] None None False =
   Inr (Some (TINSTANT
     (tinstant_make \<lparr>gx = 0, gy = 0, gz = None, gsrid = 0, ggeodetic = False\<rparr> 1)))"
  using tpoint_restrict_geom_time_empty
    [where ext = example_collaborators and gs = "[]" and eps = "1 / 1000000" and tol = 0
       and temp = "TINSTANT (tinstant_make
                     \<lparr>gx = 0, gy = 0, gz = None, gsrid = 0, ggeodetic = False\<rparr> 1)"
       and zspan = None and ?period1.0 = None and atfunc = False]
  by (simp add: example_collaborators_fields)

theorem tpoint_restrict_geom_time_empty_counterexample:
  "gserialized_is_empty example_collaborators [] \<and>
   tpoint_restrict_geom_time example_collaborators (1 / 1000000) 0
     (TINSTANT (tinstant_make \<lparr>gx = 0, gy = 0, gz = None, gsrid = 0, ggeodetic = False\<rparr> 1))
     [] None None True = Inr None \<and>
   tpoint_restrict_geom_time example_collaborators (1 / 1000000) 0
     (TINSTANT (tinstant_make \<lparr>gx = 0, gy = 0, gz = None, gsrid = 0, ggeodetic = False\<rparr> 1))
     [] None None True \<noteq> Inl InvalidArgument \<and>
   tpoint_restrict_geom_time example_collaborators (1 / 1000000) 0
     (TINSTANT (tinstant_make \<lparr>gx = 0, gy = 0, gz = None, gsrid = 0, ggeodetic = False\<rparr> 1))
     [] None None False \<noteq> Inl InvalidArgument"
  by (simp add: tpoint_restrict_geom_time_def example_collaborators_fields temporal_copy_def)




subsection \<open>Restriction of a linear sequence to a box that no segment enters\<close>

text \<open>
  C1. The linear sequence from the point (0, 3) at time 0 to the point (3, 0) at time 10
  and the box from (0, 0) to (1, 1), with the borders included: the bounding boxes
  overlap and the segment passes outside the box. The restriction \<open>at\<close> the box is empty.
  The restriction \<open>minus\<close> the box does not return the sequence: the array of zero
  sequences is not \<^verbatim>\<open>NULL\<close>, and the time of the \<open>at\<close> result is read of a sequence
  set that does not exist.
\<close>

theorem tpointseq_linear_restrict_stbox_no_fragment:
  "tpointseq_linear_at_stbox_iter ext eps
     (tsequence_make
        [tinstant_make \<lparr>gx = 0, gy = 3, gz = None, gsrid = 0, ggeodetic = False\<rparr> 0,
         tinstant_make \<lparr>gx = 3, gy = 0, gz = None, gsrid = 0, ggeodetic = False\<rparr> 10]
        True True LINEAR)
     \<lparr>flag_x = True, flag_z = False, flag_t = False, flag_geodetic = False, box_srid = 0,
      xmin = 0, xmax = 1, ymin = 0, ymax = 1, zmin = 0, zmax = 0,
      period = \<lparr>lower = 0, upper = 0, lower_inc = True, upper_inc = True\<rparr>\<rparr>
     True = Inr (Some []) \<and>
   tpointseq_linear_restrict_stbox ext eps
     (tsequence_make
        [tinstant_make \<lparr>gx = 0, gy = 3, gz = None, gsrid = 0, ggeodetic = False\<rparr> 0,
         tinstant_make \<lparr>gx = 3, gy = 0, gz = None, gsrid = 0, ggeodetic = False\<rparr> 10]
        True True LINEAR)
     \<lparr>flag_x = True, flag_z = False, flag_t = False, flag_geodetic = False, box_srid = 0,
      xmin = 0, xmax = 1, ymin = 0, ymax = 1, zmin = 0, zmax = 0,
      period = \<lparr>lower = 0, upper = 0, lower_inc = True, upper_inc = True\<rparr>\<rparr>
     True True = Inr None \<and>
   tpointseq_linear_restrict_stbox ext eps
     (tsequence_make
        [tinstant_make \<lparr>gx = 0, gy = 3, gz = None, gsrid = 0, ggeodetic = False\<rparr> 0,
         tinstant_make \<lparr>gx = 3, gy = 0, gz = None, gsrid = 0, ggeodetic = False\<rparr> 10]
        True True LINEAR)
     \<lparr>flag_x = True, flag_z = False, flag_t = False, flag_geodetic = False, box_srid = 0,
      xmin = 0, xmax = 1, ymin = 0, ymax = 1, zmin = 0, zmax = 0,
      period = \<lparr>lower = 0, upper = 0, lower_inc = True, upper_inc = True\<rparr>\<rparr>
     True False = Inl NullPointer \<and>
   overlaps_stbox_stbox example_collaborators
     (temporal_set_bbox example_collaborators
        (TSEQUENCE
           (tsequence_make
              [tinstant_make \<lparr>gx = 0, gy = 3, gz = None, gsrid = 0, ggeodetic = False\<rparr> 0,
               tinstant_make \<lparr>gx = 3, gy = 0, gz = None, gsrid = 0, ggeodetic = False\<rparr> 10]
              True True LINEAR)))
     \<lparr>flag_x = True, flag_z = False, flag_t = False, flag_geodetic = False, box_srid = 0,
      xmin = 0, xmax = 1, ymin = 0, ymax = 1, zmin = 0, zmax = 0,
      period = \<lparr>lower = 0, upper = 0, lower_inc = True, upper_inc = True\<rparr>\<rparr> \<and>
   tpoint_restrict_stbox example_collaborators eps
     (TSEQUENCE
        (tsequence_make
           [tinstant_make \<lparr>gx = 0, gy = 3, gz = None, gsrid = 0, ggeodetic = False\<rparr> 0,
            tinstant_make \<lparr>gx = 3, gy = 0, gz = None, gsrid = 0, ggeodetic = False\<rparr> 10]
           True True LINEAR))
     \<lparr>flag_x = True, flag_z = False, flag_t = False, flag_geodetic = False, box_srid = 0,
      xmin = 0, xmax = 1, ymin = 0, ymax = 1, zmin = 0, zmax = 0,
      period = \<lparr>lower = 0, upper = 0, lower_inc = True, upper_inc = True\<rparr>\<rparr>
     True False = Inl NullPointer"
proof -
  define seq where "seq =
    tsequence_make
      [tinstant_make \<lparr>gx = 0, gy = 3, gz = None, gsrid = 0, ggeodetic = False\<rparr> 0,
       tinstant_make \<lparr>gx = 3, gy = 0, gz = None, gsrid = 0, ggeodetic = False\<rparr> 10]
      True True LINEAR"
  define box where "box =
    \<lparr>flag_x = True, flag_z = False, flag_t = False, flag_geodetic = False, box_srid = 0,
     xmin = 0, xmax = 1, ymin = 0, ymax = 1, zmin = 0, zmax = 0,
     period = \<lparr>lower = 0, upper = 0, lower_inc = True, upper_inc = (True::bool)\<rparr>\<rparr>"
  have c: "computeCode 0 3 0 False box = 8" "computeCode 3 0 0 False box = 2"
    "computeCode 2 1 0 False box = 2"
    by (simp_all add: box_def computeCode_def INSIDE_def LEFT_def RIGHT_def BOTTOM_def TOP_def)
  have s: "clip_intersection box False 8 0 3 0 3 0 0 = Some (2, 1, 0)"
    by (simp add: box_def clip_intersection_def clip_coordinate_def binary64_eval
        LEFT_def RIGHT_def BOTTOM_def TOP_def)
  have l2: "cohenSutherlandClip_loop box False 2 1 0 2 3 0 0 2 =
      Some (False, (2, 1, 0), (3, 0, 0))"
    by (subst cohenSutherlandClip_loop.simps) simp
  have l1: "cohenSutherlandClip_loop box False 0 3 0 8 3 0 0 2 =
      Some (False, (2, 1, 0), (3, 0, 0))"
    by (subst cohenSutherlandClip_loop.simps) (simp add: s c l2)
  have fx: "flag_x box" by (simp add: box_def)
  have clip: "cohenSutherlandClip eps
      \<lparr>gx = 0, gy = 3, gz = None, gsrid = 0, ggeodetic = False\<rparr>
      \<lparr>gx = 3, gy = 0, gz = None, gsrid = 0, ggeodetic = False\<rparr> box False True =
    Some (Inr \<lparr>clip_found = False, clip_p3 = None, clip_p4 = None,
                clip_p3_inc = None, clip_p4_inc = None\<rparr>)"
    unfolding cohenSutherlandClip_def Let_def by (simp add: fx c l1)
  have iter: "tpointseq_linear_at_stbox_iter e eps seq box True = Inr (Some [])"
    for e :: "('x, 'y) collaborators"
    using clip
    by (simp add: seq_def tpointseq_linear_at_stbox_iter_def
        tpointseq_linear_at_stbox_xyz_def linear_at_stbox_segment_def
        tsequence_make_def tinstant_make_def seq_has_z_def inst_has_z_def
        datum_point_eq_def bind_error_def Let_def box_def)
  have at: "tpointseq_linear_restrict_stbox e eps seq box True True = Inr None"
    for e :: "('x, 'y) collaborators"
    using iter [of e]
    by (simp add: tpointseq_linear_restrict_stbox_def bind_error_def
        tsequenceset_make_free_def)
  have minus: "tpointseq_linear_restrict_stbox e eps seq box True False = Inl NullPointer"
    for e :: "('x, 'y) collaborators"
    using iter [of e]
    by (simp add: tpointseq_linear_restrict_stbox_def bind_error_def
        tsequenceset_make_free_def minus_of_at_def)
  have ov: "overlaps_stbox_stbox example_collaborators
              (temporal_set_bbox example_collaborators (TSEQUENCE seq)) box"
    by (simp add: example_collaborators_fields seq_def box_def tsequence_make_def
        tinstant_make_def points_stbox_def temporal_instants_def temporal_period_def
        example_overlaps_stbox_stbox_def)
  have interp: "seq_interp seq = LINEAR"
    by (simp add: seq_def tsequence_make_def)
  have srid: "tpoint_srid (TSEQUENCE seq) = 0" "temporal_geodetic (TSEQUENCE seq) = False"
    by (simp_all add: seq_def tsequence_make_def tinstant_make_def tpoint_srid_def
        temporal_geodetic_def temporal_start_instant_def)
  have entry: "tpoint_restrict_stbox example_collaborators eps (TSEQUENCE seq) box True False =
      Inl NullPointer"
    using ov minus [of example_collaborators] interp srid
    by (simp add: tpoint_restrict_stbox_def tpointseq_restrict_stbox_def
        temporal_of_sequenceset_def bind_error_def ensure_same_srid_def
        ensure_same_geodetic_def stbox_srid_def box_def Let_def)
  show ?thesis
    using iter [of ext] at [of ext] minus [of ext] ov entry unfolding seq_def box_def by simp
qed

end
